theory Spec2Isabelle
  imports Complex_Main "HOL-Library.Multiset" "HOL-Library.Log_Nat"
begin

section \<open>FocusMate backend: classification, activity store, daily analysis\<close>

text \<open>
  A shallow embedding of \<^verbatim>\<open>src/backend/main.py\<close>. Python strings are modelled as
  \<^typ>\<open>string\<close> and stand for ASCII text: a character of code 128 or more stands for no
  code point of Python. Python integers as \<^typ>\<open>int\<close>, dictionaries whose iteration order is
  observable as association lists in insertion order, the other dictionaries as maps.
  Whatever the handlers obtain from outside the program (the clock, the URL parser of the
  standard library, the outcome of writing the file, the random generator) is an
  explicit input, collected in the record \<open>env\<close>; the data file is an explicit state.
\<close>

subsection \<open>Exceptions\<close>

datatype py_error =
    ValueError
  | OSError
  | UnicodeDecodeError
  | TypeError
  | KeyError
  | ZeroDivisionError
  | OverflowError

subsection \<open>Strings\<close>

text \<open>
  \<^verbatim>\<open>str.lower\<close> on ASCII text: the letters \<open>A\<close> to \<open>Z\<close> are mapped, every other ASCII
  character is kept. (On other code points Python's \<^verbatim>\<open>str.lower\<close> follows Unicode; they
  are outside the strings of the model.)
\<close>

definition lower_char :: "char \<Rightarrow> char" where
  "lower_char c =
     (case map_of (zip ''ABCDEFGHIJKLMNOPQRSTUVWXYZ'' ''abcdefghijklmnopqrstuvwxyz'') c of
        Some l \<Rightarrow> l
      | None \<Rightarrow> c)"

definition lower :: "string \<Rightarrow> string" where
  "lower s = map lower_char s"

text \<open>\<^verbatim>\<open>h.startswith(n)\<close> and the substring test \<^verbatim>\<open>n in h\<close>.\<close>

fun starts_with :: "string \<Rightarrow> string \<Rightarrow> bool" where
  "starts_with h [] = True"
| "starts_with [] (n # ns) = False"
| "starts_with (c # cs) (n # ns) = (c = n \<and> starts_with cs ns)"

fun str_in :: "string \<Rightarrow> string \<Rightarrow> bool" where
  "str_in n [] = (n = [])"
| "str_in n (c # cs) = (starts_with (c # cs) n \<or> str_in n cs)"

subsection \<open>Static configuration\<close>

definition PRODUCTIVE_SITES :: "string list" where
  "PRODUCTIVE_SITES =
    [''coursera.org'', ''khanacademy.org'', ''udemy.com'', ''classroom.google.com'',
     ''github.com'', ''stackoverflow.com'', ''wikipedia.org'', ''leetcode.com'',
     ''geeksforgeeks.org'', ''towardsdatascience.com'', ''arxiv.org'', ''openai.com'',
     ''docs.python.org'', ''colab.research.google.com'', ''medium.com'',
     ''codecademy.com'', ''freecodecamp.org'', ''edx.org'', ''pluralsight.com'',
     ''lynda.com'', ''skillshare.com'', ''brilliant.org'', ''mit.edu'', ''stanford.edu'']"

definition UNPRODUCTIVE_SITES :: "string list" where
  "UNPRODUCTIVE_SITES =
    [''instagram.com'', ''facebook.com'', ''twitter.com'', ''x.com'', ''reddit.com'',
     ''netflix.com'', ''primevideo.com'', ''spotify.com'', ''hotstar.com'',
     ''youtube.com'', ''tiktok.com'', ''snapchat.com'', ''discord.com'',
     ''twitch.tv'', ''hulu.com'', ''disneyplus.com'', ''pinterest.com'']"

definition MOTIVATIONAL_QUOTES :: "string list" where
  "MOTIVATIONAL_QUOTES =
    [''Focus today, shine tomorrow.'',
     ''Every moment of focus builds your future.'',
     ''Productivity is never an accident. It's the result of commitment.'',
     ''Small progress is still progress. Keep going!'',
     ''Your focus determines your reality.'',
     ''Success is the sum of small efforts repeated day in and day out.'',
     ''The way to get started is to quit talking and begin doing.'',
     ''Don't watch the clock; do what it does. Keep going.'',
     ''The future depends on what you do today.'',
     ''Concentrate all your thoughts upon the work at hand.'']"

subsection \<open>The environment of a request\<close>

datatype write_outcome = Written | OpenFails | DumpFails

text \<open>
  \<^item> \<open>clock_today\<close>, \<open>clock_yesterday\<close>: what \<^verbatim>\<open>today_str()\<close> and \<^verbatim>\<open>yesterday_str()\<close>
    format from their two separate readings of \<^verbatim>\<open>datetime.now()\<close>;
  \<^item> \<open>urlparse_netloc\<close>: \<^verbatim>\<open>urlparse(url).netloc\<close> of the standard library, \<open>Inl\<close> when
    \<^verbatim>\<open>urlparse\<close> raises;
  \<^item> \<open>write_result\<close>: whether \<^verbatim>\<open>open(DATA_FILE, 'w')\<close> and \<^verbatim>\<open>json.dump\<close> succeed;
  \<^item> \<open>random_index\<close>: the number drawn by \<^verbatim>\<open>random.choice\<close>.
\<close>

record env =
  clock_today :: string
  clock_yesterday :: string
  urlparse_netloc :: "string \<Rightarrow> py_error + string"
  write_result :: write_outcome
  random_index :: nat

definition today_str :: "env \<Rightarrow> string" where
  "today_str e = clock_today e"

definition yesterday_str :: "env \<Rightarrow> string" where
  "yesterday_str e = clock_yesterday e"

definition random_choice :: "env \<Rightarrow> 'a list \<Rightarrow> 'a" where
  "random_choice e xs = xs ! (random_index e mod length xs)"

subsection \<open>Host extraction and classification\<close>

definition get_host :: "env \<Rightarrow> string \<Rightarrow> string" where
  "get_host e url =
     (case urlparse_netloc e url of
        Inr netloc \<Rightarrow> lower netloc
      | Inl err \<Rightarrow> ''unknown'')"

text \<open>
  The two loops of \<^verbatim>\<open>is_productive_site\<close>, on the host: \<open>Some True\<close> is Python's
  \<^verbatim>\<open>True\<close> (productive), \<open>Some False\<close> is \<^verbatim>\<open>False\<close> (unproductive), \<open>None\<close> is
  \<^verbatim>\<open>None\<close> (neutral).
\<close>

fun first_match :: "string list \<Rightarrow> string \<Rightarrow> bool" where
  "first_match [] host = False"
| "first_match (site # rest) host = (if str_in site host then True else first_match rest host)"

definition classify_host :: "string \<Rightarrow> bool option" where
  "classify_host host =
     (if first_match PRODUCTIVE_SITES host then Some True
      else if first_match UNPRODUCTIVE_SITES host then Some False
      else None)"

definition is_productive_site :: "env \<Rightarrow> string \<Rightarrow> bool option" where
  "is_productive_site e url = classify_host (get_host e url)"

text \<open>
  A model of \<^verbatim>\<open>urllib.parse.urlsplit(url).netloc\<close> of CPython 3.11 on ASCII input, for
  the examples; the general theorems hold for every parser. Leading characters up to the
  space are stripped, tabs and line breaks are removed, an initial \<^verbatim>\<open>scheme:\<close> is
  removed, and if \<^verbatim>\<open>//\<close> follows, the network location runs up to the first of
  \<^verbatim>\<open>/\<close>, \<^verbatim>\<open>?\<close>, \<^verbatim>\<open>#\<close>; otherwise it is empty. A bracket without its partner raises
  \<^verbatim>\<open>ValueError\<close>. With both brackets the library also validates the address between
  them and raises \<^verbatim>\<open>ValueError\<close> if it is not an IPv6 or IPvFuture literal; that
  validation is not modelled, so the model is the library's function on the ASCII strings
  whose network location has no bracket or an unbalanced one.
\<close>

definition lstrip_c0_space :: "string \<Rightarrow> string" where
  "lstrip_c0_space url = dropWhile (\<lambda>c. (of_char c :: nat) \<le> 32) url"

definition remove_unsafe :: "string \<Rightarrow> string" where
  "remove_unsafe url = filter (\<lambda>c. c \<noteq> CHR 0x09 \<and> c \<noteq> CHR 0x0D \<and> c \<noteq> CHR 0x0A) url"

definition is_scheme_char :: "char \<Rightarrow> bool" where
  "is_scheme_char c =
     (let n = (of_char c :: nat) in
        (97 \<le> n \<and> n \<le> 122) \<or> (65 \<le> n \<and> n \<le> 90) \<or> (48 \<le> n \<and> n \<le> 57)
        \<or> c = CHR ''+'' \<or> c = CHR ''-'' \<or> c = CHR ''.'')"

definition is_ascii_alpha :: "char \<Rightarrow> bool" where
  "is_ascii_alpha c =
     (let n = (of_char c :: nat) in (97 \<le> n \<and> n \<le> 122) \<or> (65 \<le> n \<and> n \<le> 90))"

definition strip_scheme :: "string \<Rightarrow> string" where
  "strip_scheme url =
     (let pre = takeWhile (\<lambda>c. c \<noteq> CHR '':'') url;
          rest = dropWhile (\<lambda>c. c \<noteq> CHR '':'') url
      in case (pre, rest) of
           (p # ps, colon # after) \<Rightarrow>
             if is_ascii_alpha p \<and> list_all is_scheme_char (p # ps) then after else url
         | _ \<Rightarrow> url)"

definition urlsplit_netloc :: "string \<Rightarrow> py_error + string" where
  "urlsplit_netloc url =
     (let u = strip_scheme (remove_unsafe (lstrip_c0_space url)) in
      if take 2 u = ''//'' then
        (let netloc = takeWhile (\<lambda>c. c \<noteq> CHR ''/'' \<and> c \<noteq> CHR ''?'' \<and> c \<noteq> CHR ''#'') (drop 2 u)
         in if (CHR ''['' \<in> set netloc) \<noteq> (CHR '']'' \<in> set netloc) then Inl ValueError
            else Inr netloc)
      else Inr [])"

definition std_env :: env where
  "std_env = \<lparr> clock_today = ''2024-05-02'', clock_yesterday = ''2024-05-01'',
               urlparse_netloc = urlsplit_netloc, write_result = Written, random_index = 3 \<rparr>"

subsection \<open>Python floats\<close>

text \<open>
  A Python \<^verbatim>\<open>float\<close> is an IEEE 754 binary64 number: a finite one is the rational it
  denotes (the sign of zero is not represented; Python compares the two zeros equal).
  \<open>fl64\<close> rounds a rational to the nearest binary64, ties to even, with the gradual
  underflow of the format; \<open>overflows\<close> holds of the rationals whose nearest binary64
  would be beyond the largest finite one.
\<close>

datatype pyfloat = Fin rat | PosInf | NegInf | NaN

definition round_half_even :: "rat \<Rightarrow> int" where
  "round_half_even x =
     (let n = \<lfloor>x\<rfloor>; r = x - of_int n in
      if r < 1 / 2 then n
      else if 1 / 2 < r then n + 1
      else if even n then n else n + 1)"

definition pow2 :: "int \<Rightarrow> rat" where
  "pow2 k = (if 0 \<le> k then 2 ^ nat k else 1 / 2 ^ nat (- k))"

text \<open>For \<open>0 < x\<close>, the \<open>k\<close> with \<open>2 ^ k \<le> x < 2 ^ (k + 1)\<close>.\<close>

definition floor_log2 :: "rat \<Rightarrow> int" where
  "floor_log2 x =
     (if 1 \<le> x then bitlen \<lfloor>x\<rfloor> - 1 else - bitlen (\<lceil>1 / x\<rceil> - 1))"

definition fl64 :: "rat \<Rightarrow> rat" where
  "fl64 x =
     (if x = 0 then 0
      else let k = max (floor_log2 \<bar>x\<bar> - 52) (- 1074)
           in of_int (round_half_even (x / pow2 k)) * pow2 k)"

definition overflows :: "rat \<Rightarrow> bool" where
  "overflows x = (2 ^ 1024 - 2 ^ 970 \<le> \<bar>x\<bar>)"

definition fin_or_inf :: "rat \<Rightarrow> pyfloat" where
  "fin_or_inf x = (if overflows x then (if 0 < x then PosInf else NegInf) else Fin (fl64 x))"

text \<open>\<^verbatim>\<open>a / b\<close> on two \<^verbatim>\<open>int\<close>s: the correctly rounded quotient, or an exception.\<close>

definition truediv :: "int \<Rightarrow> int \<Rightarrow> py_error + pyfloat" where
  "truediv a b =
     (if b = 0 then Inl ZeroDivisionError
      else let q = of_int a / of_int b
           in if overflows q then Inl OverflowError else Inr (Fin (fl64 q)))"

text \<open>\<^verbatim>\<open>x * 100\<close> and \<^verbatim>\<open>x - y\<close> on floats: no exception, overflow gives an infinity.\<close>

fun times100 :: "pyfloat \<Rightarrow> pyfloat" where
  "times100 (Fin x) = fin_or_inf (x * 100)"
| "times100 x = x"

fun fsub :: "pyfloat \<Rightarrow> pyfloat \<Rightarrow> pyfloat" where
  "fsub (Fin x) (Fin y) = fin_or_inf (x - y)"
| "fsub NaN y = NaN"
| "fsub x NaN = NaN"
| "fsub PosInf PosInf = NaN"
| "fsub NegInf NegInf = NaN"
| "fsub PosInf y = PosInf"
| "fsub NegInf y = NegInf"
| "fsub (Fin x) PosInf = NegInf"
| "fsub (Fin x) NegInf = PosInf"

text \<open>
  \<^verbatim>\<open>round(x, 1)\<close>: the decimal with one digit after the point nearest to the exact
  value of \<open>x\<close>, ties to even, converted back to a float; infinities and NaN round to
  themselves.
\<close>

fun round1 :: "pyfloat \<Rightarrow> pyfloat" where
  "round1 (Fin x) = Fin (fl64 (of_int (round_half_even (x * 10)) / 10))"
| "round1 x = x"

subsection \<open>The activity store and its file\<close>

text \<open>
  One record per date and user. \<open>sites\<close> is a Python \<^verbatim>\<open>dict\<close> that the analysis
  iterates over, so it is an association list in insertion order.
\<close>

record day_user =
  productive :: int
  unproductive :: int
  sites :: "(string \<times> int) list"

type_synonym store = "string \<rightharpoonup> (string \<rightharpoonup> day_user)"

text \<open>\<^verbatim>\<open>k in d\<close>, \<^verbatim>\<open>d[k]\<close> and \<^verbatim>\<open>d[k] = v\<close> on an insertion-ordered dictionary.\<close>

definition dict_has :: "('k \<times> 'v) list \<Rightarrow> 'k \<Rightarrow> bool" where
  "dict_has d k = (map_of d k \<noteq> None)"

definition dict_get :: "('k \<times> 'v) list \<Rightarrow> 'k \<Rightarrow> py_error + 'v" where
  "dict_get d k = (case map_of d k of None \<Rightarrow> Inl KeyError | Some v \<Rightarrow> Inr v)"

fun dict_set :: "('k \<times> 'v) list \<Rightarrow> 'k \<Rightarrow> 'v \<Rightarrow> ('k \<times> 'v) list" where
  "dict_set [] k v = [(k, v)]"
| "dict_set ((k', v') # d) k v = (if k' = k then (k', v) # d else (k', v') # dict_set d k v)"

text \<open>
  What \<^verbatim>\<open>json.load\<close> returns from a file of valid JSON: an object of the shape that
  \<^verbatim>\<open>save_data\<close> writes (dates to users to records), or a value that is not an object (a
  list, a string, a number, a boolean, \<^verbatim>\<open>null\<close>). An object whose entries have another
  shape is not represented.
\<close>

datatype document = Object store | Non_object

text \<open>
  What \<^verbatim>\<open>activity.json\<close> is when \<^verbatim>\<open>load_data\<close> runs:
  \<^item> \<open>Missing\<close>: there is no file (\<^verbatim>\<open>os.path.exists\<close> is false, or \<^verbatim>\<open>open\<close> raises
    \<^verbatim>\<open>FileNotFoundError\<close>);
  \<^item> \<open>Malformed\<close>: UTF-8 text that \<^verbatim>\<open>json.load\<close> rejects with \<^verbatim>\<open>JSONDecodeError\<close>, such
    as an empty or a truncated document;
  \<^item> \<open>Undecodable\<close>: bytes that are not UTF-8, on which reading raises
    \<^verbatim>\<open>UnicodeDecodeError\<close>;
  \<^item> \<open>Unreadable\<close>: a file that \<^verbatim>\<open>open\<close> refuses with another \<^verbatim>\<open>OSError\<close> (no permission,
    a directory);
  \<^item> \<open>Not_object\<close>: valid JSON that is not an object;
  \<^item> \<open>Stored data\<close>: the document of the store \<open>data\<close>, as \<^verbatim>\<open>save_data\<close> writes it.
  \<^verbatim>\<open>load_data\<close> catches \<^verbatim>\<open>JSONDecodeError\<close> and \<^verbatim>\<open>FileNotFoundError\<close> only.
\<close>

datatype data_file = Missing | Malformed | Undecodable | Unreadable | Not_object | Stored store

definition load_data :: "data_file \<Rightarrow> py_error + document" where
  "load_data f =
     (case f of
        Missing \<Rightarrow> Inr (Object Map.empty)
      | Malformed \<Rightarrow> Inr (Object Map.empty)
      | Undecodable \<Rightarrow> Inl UnicodeDecodeError
      | Unreadable \<Rightarrow> Inl OSError
      | Not_object \<Rightarrow> Inr Non_object
      | Stored data \<Rightarrow> Inr (Object data))"

text \<open>
  \<^verbatim>\<open>save_data\<close> swallows every exception: when the file cannot be opened it stays as
  it was, when \<^verbatim>\<open>json.dump\<close> fails the file has been truncated and holds an incomplete
  document.
\<close>

definition save_data :: "env \<Rightarrow> store \<Rightarrow> data_file \<Rightarrow> data_file" where
  "save_data e data f =
     (case write_result e of
        Written \<Rightarrow> Stored data
      | OpenFails \<Rightarrow> f
      | DumpFails \<Rightarrow> Malformed)"

definition new_day_user :: day_user where
  "new_day_user = \<lparr> productive = 0, unproductive = 0, sites = [] \<rparr>"

text \<open>
  \<^verbatim>\<open>get_user_day_data\<close> inserts the missing entries into \<open>data\<close> and returns the
  record; the model returns the updated \<open>data\<close> with it. On a value that is not a
  \<^verbatim>\<open>dict\<close>, \<^verbatim>\<open>date not in data\<close> or \<^verbatim>\<open>data[date]\<close> raises \<^verbatim>\<open>TypeError\<close>. In Python the returned record
  is shared with \<open>data\<close>, so the caller's updates of it are updates of \<open>data\<close>:
  \<open>put_user_day_data\<close> is that write through the shared reference.
\<close>

definition get_user_day_data :: "document \<Rightarrow> string \<Rightarrow> string \<Rightarrow> py_error + store \<times> day_user" where
  "get_user_day_data doc date user =
     (case doc of
        Non_object \<Rightarrow> Inl TypeError
      | Object data \<Rightarrow>
          (let users = (case data date of None \<Rightarrow> Map.empty | Some us \<Rightarrow> us);
               r = (case users user of None \<Rightarrow> new_day_user | Some r \<Rightarrow> r)
           in Inr (data(date \<mapsto> users(user \<mapsto> r)), r)))"

definition put_user_day_data :: "store \<Rightarrow> string \<Rightarrow> string \<Rightarrow> day_user \<Rightarrow> store" where
  "put_user_day_data data date user r =
     (case data date of
        None \<Rightarrow> data
      | Some users \<Rightarrow> data(date \<mapsto> users(user \<mapsto> r)))"

subsection \<open>POST /activity\<close>

datatype activity_response =
    Status_ok "bool option" string int
  | Status_error py_error

definition add_duration :: "bool option \<Rightarrow> int \<Rightarrow> day_user \<Rightarrow> day_user" where
  "add_duration cls duration user_data =
     (if cls = Some True then user_data\<lparr>productive := productive user_data + duration\<rparr>
      else if cls = Some False then user_data\<lparr>unproductive := unproductive user_data + duration\<rparr>
      else user_data)"

definition add_site :: "string \<Rightarrow> int \<Rightarrow> day_user \<Rightarrow> py_error + day_user" where
  "add_site h duration user_data =
     (let s0 = sites user_data;
          s1 = (if \<not> dict_has s0 h then dict_set s0 h 0 else s0)
      in case dict_get s1 h of
           Inl err \<Rightarrow> Inl err
         | Inr v \<Rightarrow> Inr (user_data\<lparr>sites := dict_set s1 h (v + duration)\<rparr>))"

definition log_activity :: "env \<Rightarrow> data_file \<Rightarrow> string \<Rightarrow> int \<Rightarrow> string \<Rightarrow> activity_response \<times> data_file" where
  "log_activity e f url duration user =
     (case load_data f of
        Inl err \<Rightarrow> (Status_error err, f)
      | Inr data0 \<Rightarrow>
          (let today = today_str e
           in case get_user_day_data data0 today user of
                Inl err \<Rightarrow> (Status_error err, f)
              | Inr (data, user_data) \<Rightarrow>
                  (let cls = is_productive_site e url;
                       h = get_host e url
                   in case add_site h duration (add_duration cls duration user_data) of
                        Inl err \<Rightarrow> (Status_error err, f)
                      | Inr user_data' \<Rightarrow>
                          (Status_ok cls h duration,
                           save_data e (put_user_day_data data today user user_data') f))))"

subsection \<open>GET /analysis/today\<close>

record site_entry =
  host :: string
  minutes :: int

record report =
  productive_minutes :: int
  unproductive_minutes :: int
  productivity_percent :: pyfloat
  delta_vs_yesterday_percent :: "pyfloat option"
  quote :: string
  by_site :: "site_entry list"
  error :: "py_error option"

definition failed_report :: "py_error \<Rightarrow> report" where
  "failed_report err =
     \<lparr> productive_minutes = 0, unproductive_minutes = 0, productivity_percent = Fin 0,
       delta_vs_yesterday_percent = None,
       quote = ''Every journey begins with a single step.'',
       by_site = [], error = Some err \<rparr>"

text \<open>Lines 256 to 260: the productivity percentage from the minutes.\<close>

definition calc_percent :: "int \<Rightarrow> int \<Rightarrow> py_error + pyfloat" where
  "calc_percent productive_mins total_mins =
     (if total_mins > 0 then
        (case truediv productive_mins total_mins of
           Inl err \<Rightarrow> Inl err
         | Inr q \<Rightarrow> Inr (round1 (times100 q)))
      else Inr (Fin 0))"

text \<open>Lines 262 to 272: the comparison with yesterday.\<close>

definition calc_delta :: "store \<Rightarrow> string \<Rightarrow> string \<Rightarrow> pyfloat \<Rightarrow> py_error + pyfloat option" where
  "calc_delta data yesterday user percent_today =
     (case data yesterday of
        None \<Rightarrow> Inr None
      | Some users \<Rightarrow>
          (case users user of
             None \<Rightarrow> Inr None
           | Some yesterday_data \<Rightarrow>
               (let yesterday_productive = productive yesterday_data div 60;
                    yesterday_unproductive = unproductive yesterday_data div 60;
                    yesterday_total = yesterday_productive + yesterday_unproductive
                in if yesterday_total > 0 then
                     (case truediv yesterday_productive yesterday_total of
                        Inl err \<Rightarrow> Inl err
                      | Inr q \<Rightarrow> Inr (Some (round1 (fsub percent_today (times100 q)))))
                   else Inr None)))"

text \<open>
  Lines 274 to 285: the loop over \<^verbatim>\<open>today_data["sites"].items()\<close>, and the sort.
  \<^verbatim>\<open>list.sort(key=..., reverse=True)\<close> is stable: entries with equal minutes keep their
  order; it is the stable sort by the negated key.
\<close>

fun site_loop :: "(string \<times> int) list \<Rightarrow> site_entry list" where
  "site_loop [] = []"
| "site_loop ((h, seconds) # rest) =
     (if seconds div 60 > 0 then \<lparr> host = h, minutes = seconds div 60 \<rparr> # site_loop rest
      else site_loop rest)"

definition sort_minutes_desc :: "site_entry list \<Rightarrow> site_entry list" where
  "sort_minutes_desc xs = sort_key (\<lambda>x. - minutes x) xs"

definition get_today_analysis :: "env \<Rightarrow> data_file \<Rightarrow> string \<Rightarrow> report \<times> data_file" where
  "get_today_analysis e f user =
     (case load_data f of
        Inl err \<Rightarrow> (failed_report err, f)
      | Inr data0 \<Rightarrow>
          (let today = today_str e;
               yesterday = yesterday_str e
           in case get_user_day_data data0 today user of
                Inl err \<Rightarrow> (failed_report err, f)
              | Inr (data, today_data) \<Rightarrow>
                  (let productive_mins = productive today_data div 60;
                       unproductive_mins = unproductive today_data div 60;
                       total_mins = productive_mins + unproductive_mins
                   in case calc_percent productive_mins total_mins of
                        Inl err \<Rightarrow> (failed_report err, f)
                      | Inr percent_today \<Rightarrow>
                          (case calc_delta data yesterday user percent_today of
                             Inl err \<Rightarrow> (failed_report err, f)
                           | Inr delta \<Rightarrow>
                               (\<lparr> productive_minutes = productive_mins,
                                  unproductive_minutes = unproductive_mins,
                                  productivity_percent = percent_today,
                                  delta_vs_yesterday_percent = delta,
                                  quote = random_choice e MOTIVATIONAL_QUOTES,
                                  by_site =
                                    take 10 (sort_minutes_desc (site_loop (sites today_data))),
                                  error = None \<rparr>, f)))))"

subsection \<open>Notions of the specification\<close>

text \<open>\<open>s\<close> is a substring of \<open>h\<close>.\<close>

definition substring_of :: "string \<Rightarrow> string \<Rightarrow> bool" where
  "substring_of s h = (\<exists>before after. h = before @ s @ after)"

text \<open>The record of a date and user in a store, and the seconds it holds for a host.\<close>

definition lookup_record :: "store \<Rightarrow> string \<Rightarrow> string \<Rightarrow> day_user option" where
  "lookup_record data date user = (case data date of None \<Rightarrow> None | Some users \<Rightarrow> users user)"

definition record_or_new :: "store \<Rightarrow> string \<Rightarrow> string \<Rightarrow> day_user" where
  "record_or_new data date user =
     (case lookup_record data date user of None \<Rightarrow> new_day_user | Some r \<Rightarrow> r)"

definition users_of :: "store \<Rightarrow> string \<Rightarrow> (string \<rightharpoonup> day_user)" where
  "users_of data date = (case data date of None \<Rightarrow> Map.empty | Some us \<Rightarrow> us)"

definition site_seconds :: "day_user \<Rightarrow> string \<Rightarrow> int" where
  "site_seconds r h = (case map_of (sites r) h of None \<Rightarrow> 0 | Some s \<Rightarrow> s)"

definition sites_total :: "day_user \<Rightarrow> int" where
  "sites_total r = sum_list (map snd (sites r))"

text \<open>
  The data model of the specification: seconds are not negative, and \<open>sites\<close> has one
  entry per host.
\<close>

definition valid_record :: "day_user \<Rightarrow> bool" where
  "valid_record r \<longleftrightarrow>
     0 \<le> productive r \<and> 0 \<le> unproductive r \<and> list_all (\<lambda>(h, s). 0 \<le> s) (sites r)
     \<and> distinct (map fst (sites r))"

text \<open>The part of it that the percentages need: classified seconds are not negative.\<close>

definition totals_nonneg :: "store \<Rightarrow> bool" where
  "totals_nonneg data \<longleftrightarrow>
     (\<forall>date user r. lookup_record data date user = Some r \<longrightarrow>
        0 \<le> productive r \<and> 0 \<le> unproductive r)"

definition valid_store :: "store \<Rightarrow> bool" where
  "valid_store data \<longleftrightarrow> (\<forall>date user r. lookup_record data date user = Some r \<longrightarrow> valid_record r)"

text \<open>
  The invariant of the specification: the seconds of the sites add up to no less than
  the classified seconds.
\<close>

definition record_inv :: "day_user \<Rightarrow> bool" where
  "record_inv r \<longleftrightarrow> productive r + unproductive r \<le> sites_total r \<and> distinct (map fst (sites r))"

definition file_inv :: "data_file \<Rightarrow> bool" where
  "file_inv f \<longleftrightarrow> (\<forall>data date user r. load_data f = Inr (Object data) \<longrightarrow>
       lookup_record data date user = Some r \<longrightarrow> record_inv r)"

text \<open>Sequences of requests: events sent to POST /activity, reports asked of GET /analysis/today.\<close>

fun run_events :: "data_file \<Rightarrow> (env \<times> string \<times> int \<times> string) list \<Rightarrow> data_file" where
  "run_events f [] = f"
| "run_events f ((e, url, duration, user) # events) =
     run_events (snd (log_activity e f url duration user)) events"

fun run_reports :: "data_file \<Rightarrow> (env \<times> string) list \<Rightarrow> data_file" where
  "run_reports f [] = f"
| "run_reports f ((e, user) # requests) = run_reports (snd (get_today_analysis e f user)) requests"

text \<open>The values that Python prints as \<^verbatim>\<open>66.7\<close>, \<^verbatim>\<open>16.7\<close>, \<^verbatim>\<open>6.2\<close> and so on.\<close>

definition float_of_decimal :: "rat \<Rightarrow> pyfloat" where
  "float_of_decimal x = Fin (fl64 x)"

text \<open>
  \<open>p / t * 100\<close> as Python computes it for integers \<open>p\<close> and \<open>t\<close> whose quotient is in
  the range of the floats.
\<close>

definition ratio_percent :: "int \<Rightarrow> int \<Rightarrow> pyfloat" where
  "ratio_percent p t = times100 (Fin (fl64 (of_int p / of_int t)))"

text \<open>The delta of the report, from today's percentage and yesterday's record if any.\<close>

definition delta_of :: "pyfloat \<Rightarrow> day_user option \<Rightarrow> pyfloat option" where
  "delta_of pct yesterday_record =
     (case yesterday_record of
        None \<Rightarrow> None
      | Some y \<Rightarrow>
          if productive y div 60 + unproductive y div 60 > 0 then
            Some (round1 (fsub pct
              (ratio_percent (productive y div 60) (productive y div 60 + unproductive y div 60))))
          else None)"

text \<open>
  The delta as the specification words it: yesterday's percentage computed like
  today's, rounded to one decimal, before the difference is rounded.
\<close>

definition claimed_delta :: "pyfloat \<Rightarrow> int \<Rightarrow> int \<Rightarrow> pyfloat" where
  "claimed_delta percent_today yesterday_productive yesterday_total =
     round1 (fsub percent_today (round1 (ratio_percent yesterday_productive yesterday_total)))"

subsection \<open>Example requests\<close>

definition two_events :: "(env \<times> string \<times> int \<times> string) list" where
  "two_events =
     [(std_env, ''https://github.com/FocusMate'', 90, ''guest''),
      (std_env, ''https://example.org/news'', 30, ''guest'')]"

text \<open>
  Files for \<open>std_env\<close>, whose today is 2024-05-02 and yesterday 2024-05-01:
  600 productive and 300 unproductive seconds today, after a yesterday at 50 percent;
  three neutral sites; a day of 1 productive minute out of 8 after a day of 1 out
  of 16; 100 productive seconds stored for today; and the events that lead to a store
  with negative seconds.
\<close>

definition github_100_file :: data_file where
  "github_100_file = Stored
     [''2024-05-02'' \<mapsto> [''guest'' \<mapsto>
        \<lparr> productive = 100, unproductive = 0, sites = [(''github.com'', 100)] \<rparr>]]"

definition negative_events :: "(env \<times> string \<times> int \<times> string) list" where
  "negative_events =
     [(std_env, ''https://a.com/page'', - 120, ''guest''),
      (std_env, ''https://c.com/page'', 61, ''guest'')]"

definition negative_file :: data_file where
  "negative_file = Stored
     [''2024-05-02'' \<mapsto> [''guest'' \<mapsto>
        \<lparr> productive = 0, unproductive = 0,
          sites = [(''a.com'', - 120), (''c.com'', 61)] \<rparr>]]"


definition percent_file :: data_file where
  "percent_file = Stored
     [''2024-05-02'' \<mapsto> [''guest'' \<mapsto>
        \<lparr> productive = 600, unproductive = 300,
          sites = [(''github.com'', 600), (''youtube.com'', 300)] \<rparr>],
      ''2024-05-01'' \<mapsto> [''guest'' \<mapsto>
        \<lparr> productive = 300, unproductive = 300,
          sites = [(''github.com'', 300), (''youtube.com'', 300)] \<rparr>]]"

definition sites_file :: data_file where
  "sites_file = Stored
     [''2024-05-02'' \<mapsto> [''guest'' \<mapsto>
        \<lparr> productive = 0, unproductive = 0,
          sites = [(''a.com'', 125), (''b.com'', 59), (''c.com'', 61)] \<rparr>]]"

definition tie_file :: data_file where
  "tie_file = Stored
     [''2024-05-02'' \<mapsto> [''guest'' \<mapsto>
        \<lparr> productive = 60, unproductive = 420,
          sites = [(''github.com'', 60), (''youtube.com'', 420)] \<rparr>],
      ''2024-05-01'' \<mapsto> [''guest'' \<mapsto>
        \<lparr> productive = 60, unproductive = 900,
          sites = [(''github.com'', 60), (''youtube.com'', 900)] \<rparr>]]"

section \<open>Properties\<close>

subsection \<open>The substring test\<close>

lemma starts_with_iff: "starts_with h n \<longleftrightarrow> (\<exists>after. h = n @ after)"
  by (induction h n rule: starts_with.induct) auto

lemma str_in_iff: "str_in n h \<longleftrightarrow> substring_of n h"
proof (induction h)
  case Nil
  show ?case by (auto simp: substring_of_def)
next
  case (Cons c cs)
  show ?case
  proof
    assume "str_in n (c # cs)"
    then consider "starts_with (c # cs) n" | "str_in n cs" by auto
    then show "substring_of n (c # cs)"
    proof cases
      case 1
      then obtain after where "c # cs = n @ after" by (auto simp: starts_with_iff)
      then have "c # cs = [] @ n @ after" by simp
      then show ?thesis unfolding substring_of_def by blast
    next
      case 2
      then obtain before after where "cs = before @ n @ after"
        using Cons.IH by (auto simp: substring_of_def)
      then have "c # cs = (c # before) @ n @ after" by simp
      then show ?thesis unfolding substring_of_def by blast
    qed
  next
    assume "substring_of n (c # cs)"
    then obtain before after where eq: "c # cs = before @ n @ after"
      by (auto simp: substring_of_def)
    show "str_in n (c # cs)"
    proof (cases before)
      case Nil
      with eq have "starts_with (c # cs) n" by (auto simp: starts_with_iff)
      then show ?thesis by simp
    next
      case (Cons b bs)
      with eq have "cs = bs @ n @ after" by simp
      then have "substring_of n cs" unfolding substring_of_def by blast
      then show ?thesis using Cons.IH by simp
    qed
  qed
qed

lemma first_match_iff:
  "first_match site_list h \<longleftrightarrow> (\<exists>site \<in> set site_list. substring_of site h)"
  by (induction site_list) (auto simp: str_in_iff)

lemma classify_sub_github: "classify_host ''sub.github.com'' = Some True"
  by (simp add: classify_host_def PRODUCTIVE_SITES_def)

lemma classify_unknown: "classify_host ''unknown'' = None"
  by (simp add: classify_host_def PRODUCTIVE_SITES_def UNPRODUCTIVE_SITES_def)

lemma classify_empty: "classify_host [] = None"
  by (simp add: classify_host_def PRODUCTIVE_SITES_def UNPRODUCTIVE_SITES_def)

lemmas std_env_parse_defs =
  std_env_def urlsplit_netloc_def lstrip_c0_space_def remove_unsafe_def strip_scheme_def
  is_ascii_alpha_def is_scheme_char_def

lemmas std_env_host_defs = get_host_def std_env_parse_defs lower_def lower_char_def

subsection \<open>The classifier\<close>

text \<open>
  C2. For every host \<open>h\<close> the classifier returns productive (\<open>Some True\<close>) exactly when an
  entry of the productive list is a substring of \<open>h\<close>; otherwise unproductive
  (\<open>Some False\<close>) exactly when an entry of the unproductive list is a substring of \<open>h\<close>;
  otherwise neutral (\<open>None\<close>). The productive list is looked at first. A URL whose host is
  \<open>sub.github.com\<close> is productive.
\<close>

theorem classify_host_substring_rule:
  "(classify_host h = Some True \<longleftrightarrow> (\<exists>site \<in> set PRODUCTIVE_SITES. substring_of site h)) \<and>
   (classify_host h = Some False \<longleftrightarrow>
      \<not> (\<exists>site \<in> set PRODUCTIVE_SITES. substring_of site h) \<and>
      (\<exists>site \<in> set UNPRODUCTIVE_SITES. substring_of site h)) \<and>
   (classify_host h = None \<longleftrightarrow>
      \<not> (\<exists>site \<in> set PRODUCTIVE_SITES. substring_of site h) \<and>
      \<not> (\<exists>site \<in> set UNPRODUCTIVE_SITES. substring_of site h)) \<and>
   (get_host e url = ''sub.github.com'' \<longrightarrow> is_productive_site e url = Some True)"
  using classify_sub_github
  by (simp add: classify_host_def is_productive_site_def first_match_iff)

theorem classify_host_substring_rule_witness:
  "classify_host ''www.youtube.com'' = Some False \<and>
   \<not> (\<exists>site \<in> set PRODUCTIVE_SITES. substring_of site ''www.youtube.com'') \<and>
   (\<exists>site \<in> set UNPRODUCTIVE_SITES. substring_of site ''www.youtube.com'') \<and>
   get_host std_env ''https://sub.github.com/FocusMate'' = ''sub.github.com'' \<and>
   is_productive_site std_env ''https://sub.github.com/FocusMate'' = Some True"
proof -
  have c: "classify_host ''www.youtube.com'' = Some False"
    by (simp add: classify_host_def PRODUCTIVE_SITES_def UNPRODUCTIVE_SITES_def)
  have h: "get_host std_env ''https://sub.github.com/FocusMate'' = ''sub.github.com''"
    by (simp add: std_env_host_defs)
  show ?thesis
    using classify_host_substring_rule
      [of "''www.youtube.com''" std_env "''https://sub.github.com/FocusMate''"] c h
    by simp
qed

subsection \<open>Dictionaries and the store\<close>

lemma map_of_dict_set: "map_of (dict_set d k v) = (map_of d)(k \<mapsto> v)"
  by (induction d k v rule: dict_set.induct) (auto simp: fun_eq_iff)

lemma sum_dict_set:
  "sum_list (map snd (dict_set d k v)) =
   sum_list (map snd d) + (v::int) - (case map_of d k of None \<Rightarrow> 0 | Some old \<Rightarrow> old)"
  by (induction d k v rule: dict_set.induct) auto

lemma keys_dict_set: "set (map fst (dict_set d k v)) = insert k (set (map fst d))"
  by (induction d k v rule: dict_set.induct) auto

lemma distinct_dict_set: "distinct (map fst d) \<Longrightarrow> distinct (map fst (dict_set d k v))"
proof (induction d k v rule: dict_set.induct)
  case (1 k v)
  show ?case by simp
next
  case (2 k' v' d k v)
  then show ?case using keys_dict_set [of d k v] by auto
qed

lemma nonneg_dict_set:
  "list_all (\<lambda>(h, s). (0::int) \<le> s) d \<Longrightarrow> 0 \<le> v \<Longrightarrow> list_all (\<lambda>(h, s). 0 \<le> s) (dict_set d k v)"
  by (induction d k v rule: dict_set.induct) auto

text \<open>What the two statements on \<open>sites\<close> compute: they never raise.\<close>

lemma add_site_eq:
  "add_site h duration r =
     Inr (r\<lparr>sites := dict_set (if dict_has (sites r) h then sites r else dict_set (sites r) h 0)
                        h (site_seconds r h + duration)\<rparr>)"
  by (auto simp: add_site_def dict_has_def dict_get_def site_seconds_def map_of_dict_set Let_def
      split: option.splits)

lemma add_site_props:
  assumes "add_site h duration r = Inr r'"
  shows "productive r' = productive r" 
    and "unproductive r' = unproductive r"
    and "map_of (sites r') = (map_of (sites r))(h \<mapsto> site_seconds r h + duration)"
    and "sites_total r' = sites_total r + duration"
    and "distinct (map fst (sites r)) \<Longrightarrow> distinct (map fst (sites r'))"
  using assms unfolding add_site_eq
  by (auto simp: map_of_dict_set sum_dict_set sites_total_def site_seconds_def dict_has_def
      distinct_dict_set split: option.splits)


lemma get_user_day_data_eq:
  "get_user_day_data (Object data) date user =
     Inr (data(date \<mapsto> (case data date of None \<Rightarrow> Map.empty | Some us \<Rightarrow> us)
                        (user \<mapsto> record_or_new data date user)),
          record_or_new data date user)"
  by (simp add: get_user_day_data_def record_or_new_def lookup_record_def Let_def
      split: option.splits)

lemma lookup_record_upd:
  "lookup_record (data(date \<mapsto> (users_of data date)(user \<mapsto> r))) date' user' =
     (if date' = date \<and> user' = user then Some r else lookup_record data date' user')"
  by (auto simp: lookup_record_def users_of_def split: option.splits)

lemma log_activity_ok:
  assumes "load_data f = Inr (Object data0)"
    and "add_site (get_host e url) duration
           (add_duration (is_productive_site e url) duration
              (record_or_new data0 (today_str e) user)) = Inr r'"
  shows "log_activity e f url duration user =
       (Status_ok (is_productive_site e url) (get_host e url) duration,
        save_data e (data0(today_str e \<mapsto> (users_of data0 (today_str e))(user \<mapsto> r'))) f)"
  using assms
  by (simp add: log_activity_def get_user_day_data_eq put_user_day_data_def Let_def users_of_def)

subsection \<open>Recording an event\<close>

lemma log_activity_effect:
  assumes "load_data f = Inr (Object data)" and "write_result e = Written"
  shows "\<exists>data' r'.
      log_activity e f url d user =
        (Status_ok (classify_host (get_host e url)) (get_host e url) d, Stored data') \<and>
      lookup_record data' (today_str e) user = Some r' \<and>
      (let h = get_host e url; r = record_or_new data (today_str e) user in
         map_of (sites r') h = Some (site_seconds r h + d) \<and>
         (\<forall>h'. h' \<noteq> h \<longrightarrow> map_of (sites r') h' = map_of (sites r) h') \<and>
         (classify_host h = Some True \<longrightarrow>
            productive r' = productive r + d \<and> unproductive r' = unproductive r) \<and>
         (classify_host h = Some False \<longrightarrow>
            unproductive r' = unproductive r + d \<and> productive r' = productive r) \<and>
         (classify_host h = None \<longrightarrow>
            productive r' = productive r \<and> unproductive r' = unproductive r))"
proof -
  define r where "r = record_or_new data (today_str e) user"
  define h where "h = get_host e url"
  define r1 where "r1 = add_duration (classify_host h) d r"
  obtain r' where add: "add_site h d r1 = Inr r'"
    by (simp add: add_site_eq)
  define data' where
    "data' = data(today_str e \<mapsto> (users_of data (today_str e))(user \<mapsto> r'))"
  have "log_activity e f url d user =
       (Status_ok (is_productive_site e url) (get_host e url) d, save_data e data' f)"
    unfolding data'_def
    by (rule log_activity_ok [OF assms(1)])
       (use add in \<open>simp add: r1_def r_def h_def is_productive_site_def\<close>)
  then have run: "log_activity e f url d user = (Status_ok (classify_host h) h d, Stored data')"
    using assms(2) by (simp add: save_data_def is_productive_site_def h_def)
  have look: "lookup_record data' (today_str e) user = Some r'"
    by (simp add: data'_def lookup_record_upd)
  have s1: "sites r1 = sites r"
    by (simp add: r1_def add_duration_def)
  have "map_of (sites r') = (map_of (sites r1))(h \<mapsto> site_seconds r1 h + d)"
    using add_site_props(3) [OF add] .
  then have m: "map_of (sites r') = (map_of (sites r))(h \<mapsto> site_seconds r h + d)"
    by (simp add: s1 site_seconds_def)
  have p: "productive r' = productive r1" and u: "unproductive r' = unproductive r1"
    using add_site_props(1,2) [OF add] by simp_all
  have c1: "map_of (sites r') h = Some (site_seconds r h + d)"
    by (simp add: m)
  have c2: "\<forall>h'. h' \<noteq> h \<longrightarrow> map_of (sites r') h' = map_of (sites r) h'"
    by (simp add: m)
  have c3: "classify_host h = Some True \<longrightarrow>
            productive r' = productive r + d \<and> unproductive r' = unproductive r"
    by (simp add: p u r1_def add_duration_def)
  have c4: "classify_host h = Some False \<longrightarrow>
            unproductive r' = unproductive r + d \<and> productive r' = productive r"
    by (simp add: p u r1_def add_duration_def)
  have c5: "classify_host h = None \<longrightarrow>
            productive r' = productive r \<and> unproductive r' = unproductive r"
    by (simp add: p u r1_def add_duration_def)
  show ?thesis
    unfolding Let_def r_def [symmetric] h_def [symmetric]
    by (intro exI [of _ data'] exI [of _ r'] conjI run look c1 c2 c3 c4 c5)
qed

lemma load_data_Missing: "load_data Missing = Inr (Object Map.empty)"
  by (simp add: load_data_def)

lemma record_or_new_empty: "record_or_new Map.empty date user = new_day_user"
  by (simp add: record_or_new_def lookup_record_def)

text \<open>
  C1. An event \<open>(url, d, user)\<close> sent to POST /activity, when the write succeeds, is
  answered with status ok, and the file then holds a store in which today's record of the
  user has \<open>sites[h]\<close> increased by \<open>d\<close> for the extracted host \<open>h\<close> (from 0 when the entry
  was absent) and no other entry of \<open>sites\<close> changed; when \<open>h\<close> is productive,
  \<open>productive\<close> is increased by \<open>d\<close> and \<open>unproductive\<close> unchanged; when \<open>h\<close> is
  unproductive, \<open>unproductive\<close> is increased by \<open>d\<close> and \<open>productive\<close> unchanged; when
  \<open>h\<close> is neutral, both are unchanged. The increase is over the record that the file held
  before the event: the one of the stored document, or the record of zeros when the
  document has none or the file is missing or malformed.
\<close>

theorem log_activity_accumulates:
  assumes "f = Stored data \<or> (f = Missing \<or> f = Malformed) \<and> data = Map.empty"
    and "write_result e = Written"
  shows "\<exists>data' r'.
      log_activity e f url d user =
        (Status_ok (classify_host (get_host e url)) (get_host e url) d, Stored data') \<and>
      lookup_record data' (today_str e) user = Some r' \<and>
      (let h = get_host e url; r = record_or_new data (today_str e) user in
         map_of (sites r') h = Some (site_seconds r h + d) \<and>
         (\<forall>h'. h' \<noteq> h \<longrightarrow> map_of (sites r') h' = map_of (sites r) h') \<and>
         (classify_host h = Some True \<longrightarrow>
            productive r' = productive r + d \<and> unproductive r' = unproductive r) \<and>
         (classify_host h = Some False \<longrightarrow>
            unproductive r' = unproductive r + d \<and> productive r' = productive r) \<and>
         (classify_host h = None \<longrightarrow>
            productive r' = productive r \<and> unproductive r' = unproductive r))"
proof -
  from assms(1) have "load_data f = Inr (Object data)"
    by (auto simp: load_data_def)
  then show ?thesis using assms(2) by (rule log_activity_effect)
qed

theorem log_activity_accumulates_witness:
  "github_100_file =
     Stored [''2024-05-02'' \<mapsto> [''guest'' \<mapsto>
       \<lparr> productive = 100, unproductive = 0, sites = [(''github.com'', 100)] \<rparr>]] \<and>
   write_result std_env = Written \<and>
   (\<exists>data' r'.
      log_activity std_env github_100_file ''https://github.com/FocusMate'' 25 ''guest'' =
        (Status_ok (Some True) ''github.com'' 25, Stored data') \<and>
      lookup_record data' ''2024-05-02'' ''guest'' = Some r' \<and>
      map_of (sites r') ''github.com'' = Some 125 \<and>
      productive r' = 125 \<and> unproductive r' = 0)"
proof -
  let ?data = "[''2024-05-02'' \<mapsto> [''guest'' \<mapsto>
       \<lparr> productive = 100, unproductive = 0, sites = [(''github.com'', 100)] \<rparr>]]"
  have f: "github_100_file = Stored ?data"
    by (simp add: github_100_file_def)
  have w: "write_result std_env = Written"
    by (simp add: std_env_def)
  have h: "get_host std_env ''https://github.com/FocusMate'' = ''github.com''"
    by (simp add: std_env_host_defs)
  have c: "classify_host ''github.com'' = Some True"
    by (simp add: classify_host_def PRODUCTIVE_SITES_def)
  have t: "today_str std_env = ''2024-05-02''"
    by (simp add: today_str_def std_env_def)
  have r: "record_or_new ?data ''2024-05-02'' ''guest'' =
      \<lparr> productive = 100, unproductive = 0, sites = [(''github.com'', 100)] \<rparr>"
    by (simp add: record_or_new_def lookup_record_def)
  have pre: "github_100_file = Stored ?data \<or>
      (github_100_file = Missing \<or> github_100_file = Malformed) \<and> ?data = Map.empty"
    using f by simp
  from log_activity_accumulates [OF pre w, of "''https://github.com/FocusMate''" 25 "''guest''"]
  show ?thesis
    by (auto simp: f h c t w r site_seconds_def Let_def)
qed

subsection \<open>The invariant of the store\<close>

lemma record_inv_new: "record_inv new_day_user"
  by (simp add: record_inv_def new_day_user_def sites_total_def)

lemma record_inv_step:
  assumes "record_inv r" and "0 \<le> d" and "add_site h d (add_duration cls d r) = Inr r'"
  shows "record_inv r'"
proof -
  let ?r1 = "add_duration cls d r"
  have s: "sites ?r1 = sites r" by (simp add: add_duration_def)
  have pu: "productive ?r1 + unproductive ?r1 \<le> productive r + unproductive r + d"
    using assms(2) by (simp add: add_duration_def)
  have "sites_total r' = sites_total ?r1 + d"
    using add_site_props(4) [OF assms(3)] .
  then have tot: "sites_total r' = sites_total r + d"
    by (simp add: sites_total_def s)
  have "distinct (map fst (sites r'))"
    using add_site_props(5) [OF assms(3)] assms(1) by (simp add: s record_inv_def)
  moreover have "productive r' + unproductive r' \<le> sites_total r'"
    using add_site_props(1,2) [OF assms(3)] pu tot assms(1) by (simp add: record_inv_def)
  ultimately show ?thesis by (simp add: record_inv_def)
qed

lemma file_inv_log_activity:
  assumes "file_inv f" and "0 \<le> d"
  shows "file_inv (snd (log_activity e f url d user))"
proof -
  consider err where "load_data f = Inl err" | "load_data f = Inr Non_object"
    | data0 where "load_data f = Inr (Object data0)"
    by (cases "load_data f") (auto intro: document.exhaust)
  then show ?thesis
  proof cases
  case (1 err)
  then show ?thesis using assms(1) by (simp add: log_activity_def)
next
  case 2
  then show ?thesis using assms(1) by (simp add: log_activity_def get_user_day_data_def)
next
  case Inr: (3 data0)
  define r where "r = record_or_new data0 (today_str e) user"
  have r: "record_inv r"
    using assms(1) Inr unfolding r_def record_or_new_def file_inv_def
    by (auto simp: record_inv_new split: option.splits)
  obtain r' where add: "add_site (get_host e url) d
           (add_duration (is_productive_site e url) d r) = Inr r'"
    by (simp add: add_site_eq)
  have r': "record_inv r'"
    using record_inv_step [OF r assms(2) add] .
  define data' where
    "data' = data0(today_str e \<mapsto> (users_of data0 (today_str e))(user \<mapsto> r'))"
  have run: "snd (log_activity e f url d user) = save_data e data' f"
    using log_activity_ok [OF Inr, of e url d user r'] add by (simp add: r_def data'_def)
  have inv': "lookup_record data' date u = Some x \<Longrightarrow> record_inv x" for date u x
    using r' assms(1) Inr unfolding data'_def lookup_record_upd file_inv_def
    by (auto split: if_splits)
  show ?thesis
  proof (cases "write_result e")
    case Written
    then show ?thesis using inv' by (simp add: run save_data_def file_inv_def load_data_def)
  next
    case OpenFails
    then show ?thesis using assms(1) by (simp add: run save_data_def)
  next
    case DumpFails
    then show ?thesis by (simp add: run save_data_def file_inv_def load_data_def lookup_record_def)
  qed
  qed
qed

lemma file_inv_run_events:
  "file_inv f \<Longrightarrow> list_all (\<lambda>(e, url, d, user). 0 \<le> d) events \<Longrightarrow> file_inv (run_events f events)"
proof (induction events arbitrary: f)
  case Nil
  then show ?case by simp
next
  case (Cons ev events)
  obtain e url d user where ev: "ev = (e, url, d, user)" by (cases ev) auto
  from Cons.prems(2) have d: "0 \<le> d" and rest: "list_all (\<lambda>(e, url, d, user). 0 \<le> d) events"
    by (simp_all add: ev)
  show ?case
    using Cons.IH [OF file_inv_log_activity [OF Cons.prems(1) d] rest] by (simp add: ev)
qed

text \<open>
  C9. In every store reached from the empty store by events with durations \<open>d \<ge> 0\<close>
  (whatever the clock, the parser and the outcome of the writes), every record present
  has a sum of per-site seconds no smaller than \<open>productive + unproductive\<close>; its
  \<open>sites\<close> has one entry per host, so the sum of the list is the sum over the mapping.
\<close>

theorem sites_total_bounds_classified:
  assumes "load_data f0 = Inr (Object Map.empty)"
    and "list_all (\<lambda>(e, url, d, user). 0 \<le> d) events"
    and "load_data (run_events f0 events) = Inr (Object data)"
    and "lookup_record data date user = Some r"
  shows "productive r + unproductive r \<le> sum_list (map snd (sites r)) \<and>
         distinct (map fst (sites r))"
proof -
  have "file_inv f0"
    using assms(1) by (simp add: file_inv_def lookup_record_def)
  then have "file_inv (run_events f0 events)"
    using assms(2) by (rule file_inv_run_events)
  then have "record_inv r"
    using assms(3,4) unfolding file_inv_def by blast
  then show ?thesis by (simp add: record_inv_def sites_total_def)
qed

lemma run_two_events:
  "run_events Missing two_events =
     Stored [''2024-05-02'' \<mapsto> [''guest'' \<mapsto>
        \<lparr> productive = 90, unproductive = 0,
          sites = [(''github.com'', 90), (''example.org'', 30)] \<rparr>]]"
proof -
  have h1: "get_host std_env ''https://github.com/FocusMate'' = ''github.com''"
    by (simp add: std_env_host_defs)
  have h2: "get_host std_env ''https://example.org/news'' = ''example.org''"
    by (simp add: std_env_host_defs)
  have c1: "classify_host ''github.com'' = Some True"
    by (simp add: classify_host_def PRODUCTIVE_SITES_def)
  have c2: "classify_host ''example.org'' = None"
    by (simp add: classify_host_def PRODUCTIVE_SITES_def UNPRODUCTIVE_SITES_def)
  have t: "today_str std_env = ''2024-05-02''" and w: "write_result std_env = Written"
    by (simp_all add: today_str_def std_env_def)
  show ?thesis
    by (simp add: two_events_def log_activity_def load_data_def get_user_day_data_def
        put_user_day_data_def add_site_def add_duration_def dict_has_def dict_get_def
        save_data_def is_productive_site_def new_day_user_def h1 h2 c1 c2 t w Let_def)
qed

theorem sites_total_bounds_classified_witness:
  "load_data Missing = Inr (Object Map.empty) \<and>
   list_all (\<lambda>(e, url, d, user). 0 \<le> d) two_events \<and>
   (\<exists>data r. load_data (run_events Missing two_events) = Inr (Object data) \<and>
      lookup_record data ''2024-05-02'' ''guest'' = Some r \<and>
      productive r + unproductive r = 90 \<and> sum_list (map snd (sites r)) = 120 \<and>
      productive r + unproductive r \<le> sum_list (map snd (sites r)))"
proof -
  let ?r = "\<lparr> productive = 90, unproductive = 0,
             sites = [(''github.com'', 90), (''example.org'', 30)] \<rparr>"
  let ?data = "[''2024-05-02'' \<mapsto> [''guest'' \<mapsto> ?r]]"
  have nonneg: "list_all (\<lambda>(e, url, d, user). 0 \<le> d) two_events"
    by (simp add: two_events_def)
  have l: "load_data (run_events Missing two_events) = Inr (Object ?data)"
    by (simp add: run_two_events load_data_def)
  have r: "lookup_record ?data ''2024-05-02'' ''guest'' = Some ?r"
    by (simp add: lookup_record_def)
  have "productive ?r + unproductive ?r \<le> sum_list (map snd (sites ?r))"
    using sites_total_bounds_classified [OF load_data_Missing nonneg l r] by simp
  then show ?thesis
    using nonneg l r load_data_Missing by (intro conjI exI [of _ ?data] exI [of _ ?r]) simp_all
qed

subsection \<open>The analysis on a store without negative totals\<close>

lemma overflow_threshold: "(1::rat) < 2 ^ 1024 - 2 ^ 970"
  by simp

lemma not_overflows_unit: "\<bar>q\<bar> \<le> 1 \<Longrightarrow> \<not> overflows q"
  unfolding overflows_def using overflow_threshold by linarith

lemma truediv_unit:
  assumes "0 \<le> a" and "a \<le> b" and "0 < b"
  shows "truediv a b = Inr (Fin (fl64 (of_int a / of_int b)))"
proof -
  have "\<bar>(of_int a / of_int b :: rat)\<bar> \<le> 1"
    using assms by (simp add: divide_le_eq)
  then have "\<not> overflows (of_int a / of_int b)"
    by (rule not_overflows_unit)
  then show ?thesis using assms by (simp add: truediv_def Let_def)
qed

lemma calc_percent_valid:
  assumes "0 \<le> p" and "0 \<le> u"
  shows "calc_percent (p div 60) (p div 60 + u div 60) =
     Inr (if p div 60 + u div 60 > 0 then round1 (ratio_percent (p div 60) (p div 60 + u div 60))
          else Fin 0)"
proof -
  have "0 \<le> p div 60" and "0 \<le> u div 60" using assms by simp_all
  then show ?thesis
    by (simp add: calc_percent_def ratio_percent_def truediv_unit)
qed


lemma valid_record_new: "valid_record new_day_user"
  by (simp add: valid_record_def new_day_user_def)

lemma valid_record_or_new: "valid_store data \<Longrightarrow> valid_record (record_or_new data date user)"
  by (auto simp: valid_store_def record_or_new_def valid_record_new split: option.splits)

lemma calc_delta_lookup:
  "calc_delta data yesterday user pct =
     (case lookup_record data yesterday user of
        None \<Rightarrow> Inr None
      | Some y \<Rightarrow>
          if productive y div 60 + unproductive y div 60 > 0 then
            (case truediv (productive y div 60) (productive y div 60 + unproductive y div 60) of
               Inl err \<Rightarrow> Inl err
             | Inr q \<Rightarrow> Inr (Some (round1 (fsub pct (times100 q)))))
          else Inr None)"
  by (simp add: calc_delta_def lookup_record_def Let_def split: option.splits)

lemma calc_delta_valid:
  assumes "\<And>y. lookup_record data yesterday user = Some y \<Longrightarrow>
             0 \<le> productive y \<and> 0 \<le> unproductive y"
  shows "calc_delta data yesterday user pct = Inr (delta_of pct (lookup_record data yesterday user))"
proof (cases "lookup_record data yesterday user")
  case None
  then show ?thesis by (simp add: calc_delta_lookup delta_of_def)
next
  case (Some y)
  then have "0 \<le> productive y" and "0 \<le> unproductive y"
    using assms by simp_all
  then have "0 \<le> productive y div 60" and "0 \<le> unproductive y div 60"
    by simp_all
  then show ?thesis
    using Some by (simp add: calc_delta_lookup delta_of_def truediv_unit ratio_percent_def)
qed

lemma delta_of_today:
  "delta_of pct (if yesterday = today then Some (record_or_new data today user)
                 else lookup_record data yesterday user) =
   delta_of pct (lookup_record data yesterday user)"
  by (simp add: delta_of_def record_or_new_def new_day_user_def split: option.splits)

lemma valid_store_totals: "valid_store data \<Longrightarrow> totals_nonneg data"
  by (auto simp: valid_store_def totals_nonneg_def valid_record_def)

lemma totals_record_or_new:
  assumes "totals_nonneg data"
  shows "0 \<le> productive (record_or_new data date user) \<and>
         0 \<le> unproductive (record_or_new data date user)"
  using assms
  by (auto simp: totals_nonneg_def record_or_new_def new_day_user_def split: option.splits)

lemma get_today_analysis_totals:
  assumes "load_data f = Inr (Object data)" and "totals_nonneg data"
  shows "get_today_analysis e f user =
     (let r = record_or_new data (today_str e) user;
          pm = productive r div 60;
          um = unproductive r div 60;
          pct = (if pm + um > 0 then round1 (ratio_percent pm (pm + um)) else Fin 0)
      in \<lparr> productive_minutes = pm, unproductive_minutes = um, productivity_percent = pct,
           delta_vs_yesterday_percent = delta_of pct (lookup_record data (yesterday_str e) user),
           quote = random_choice e MOTIVATIONAL_QUOTES,
           by_site = take 10 (sort_minutes_desc (site_loop (sites r))),
           error = None \<rparr>, f)"
proof -
  define r where "r = record_or_new data (today_str e) user"
  define data' where
    "data' = data(today_str e \<mapsto> (users_of data (today_str e))(user \<mapsto> r))"
  define pct where "pct = (if productive r div 60 + unproductive r div 60 > 0
    then round1 (ratio_percent (productive r div 60) (productive r div 60 + unproductive r div 60))
    else Fin 0)"
  have r: "0 \<le> productive r \<and> 0 \<le> unproductive r"
    unfolding r_def using assms(2) by (rule totals_record_or_new)
  have g: "get_user_day_data (Object data) (today_str e) user = Inr (data', r)"
    by (simp add: get_user_day_data_eq data'_def r_def users_of_def)
  have p: "calc_percent (productive r div 60) (productive r div 60 + unproductive r div 60) = Inr pct"
    unfolding pct_def using r by (intro calc_percent_valid) simp_all
  have look: "lookup_record data' (yesterday_str e) user =
      (if yesterday_str e = today_str e then Some r else lookup_record data (yesterday_str e) user)"
    by (simp add: data'_def lookup_record_upd)
  have "0 \<le> productive y \<and> 0 \<le> unproductive y"
    if "lookup_record data' (yesterday_str e) user = Some y" for y
    using that r assms(2) unfolding look totals_nonneg_def by (auto split: if_splits)
  then have "calc_delta data' (yesterday_str e) user pct =
      Inr (delta_of pct (lookup_record data' (yesterday_str e) user))"
    by (rule calc_delta_valid)
  then have d: "calc_delta data' (yesterday_str e) user pct =
      Inr (delta_of pct (lookup_record data (yesterday_str e) user))"
    unfolding look r_def by (simp only: delta_of_today)
  show ?thesis
    unfolding get_today_analysis_def Let_def r_def [symmetric]
    by (simp add: assms(1) g p d pct_def [symmetric])
qed

lemma get_today_analysis_valid:
  assumes "load_data f = Inr (Object data)" and "valid_store data"
  shows "get_today_analysis e f user =
     (let r = record_or_new data (today_str e) user;
          pm = productive r div 60;
          um = unproductive r div 60;
          pct = (if pm + um > 0 then round1 (ratio_percent pm (pm + um)) else Fin 0)
      in \<lparr> productive_minutes = pm, unproductive_minutes = um, productivity_percent = pct,
           delta_vs_yesterday_percent = delta_of pct (lookup_record data (yesterday_str e) user),
           quote = random_choice e MOTIVATIONAL_QUOTES,
           by_site = take 10 (sort_minutes_desc (site_loop (sites r))),
           error = None \<rparr>, f)"
  using assms(1) valid_store_totals [OF assms(2)] by (rule get_today_analysis_totals)

subsection \<open>The float model\<close>

lemma floor_rat_numeral: "\<lfloor>numeral a / numeral b :: rat\<rfloor> = numeral a div numeral b"
  using floor_divide_of_int_eq [of "numeral a" "numeral b", where ?'a = rat] by simp

lemma floor_rat_neg_numeral: "\<lfloor>- (numeral a / numeral b) :: rat\<rfloor> = - numeral a div numeral b"
  using floor_divide_of_int_eq [of "- numeral a" "numeral b", where ?'a = rat] by simp

lemma pow2_powi: "pow2 k = 2 powi k"
  by (simp add: pow2_def power_int_def inverse_eq_divide power_one_over)

lemma pow2_pos: "0 < pow2 k"
  by (simp add: pow2_powi)

lemma pow2_strict_mono: "k < k' \<Longrightarrow> pow2 k < pow2 k'"
  unfolding pow2_powi by (rule power_int_strict_increasing) simp_all

lemma pow2_less_iff: "pow2 k < pow2 k' \<longleftrightarrow> k < k'"
proof
  assume l: "pow2 k < pow2 k'"
  show "k < k'"
  proof (rule ccontr)
    assume "\<not> k < k'"
    then have "k' = k \<or> k' < k" by auto
    then have "pow2 k' \<le> pow2 k" using pow2_strict_mono [of k' k] by auto
    with l show False by simp
  qed
qed (rule pow2_strict_mono)

lemma floor_log2_bounds:
  assumes "0 < x"
  shows "pow2 (floor_log2 x) \<le> x \<and> x < pow2 (floor_log2 x + 1)"
proof (cases "1 \<le> x")
  case True
  define n where "n = \<lfloor>x\<rfloor>"
  have n: "0 < n" using True by (simp add: n_def)
  have b: "2 ^ nat (bitlen n - 1) \<le> n" "n < 2 ^ nat (bitlen n)"
    using bitlen_bounds [OF n] by simp_all
  have pos: "0 < bitlen n"
  proof (rule ccontr)
    assume "\<not> 0 < bitlen n"
    then have "nat (bitlen n) = 0" by simp
    with b(2) n show False by simp
  qed
  have "(of_int (2 ^ nat (bitlen n - 1)) :: rat) \<le> of_int n"
    using b(1) by (simp only: of_int_le_iff)
  also have "\<dots> \<le> x" by (simp add: n_def)
  finally have lo: "pow2 (bitlen n - 1) \<le> x"
    using pos by (simp add: pow2_def)
  have "n + 1 \<le> 2 ^ nat (bitlen n)" using b(2) by simp
  then have "(of_int (n + 1) :: rat) \<le> of_int (2 ^ nat (bitlen n))"
    by (simp only: of_int_le_iff)
  moreover have "x < of_int (n + 1)" using floor_correct [of x] by (simp add: n_def)
  ultimately have hi: "x < pow2 (bitlen n - 1 + 1)"
    using pos by (simp add: pow2_def)
  show ?thesis using True lo hi by (simp add: floor_log2_def n_def)
next
  case False
  define y where "y = 1 / x"
  have y: "1 < y" using False assms by (simp add: y_def)
  define m where "m = \<lceil>y\<rceil> - 1"
  have m: "0 < m" using y by (simp add: m_def)
  have b: "2 ^ nat (bitlen m - 1) \<le> m" "m < 2 ^ nat (bitlen m)"
    using bitlen_bounds [OF m] by simp_all
  have pos: "0 < bitlen m"
  proof (rule ccontr)
    assume "\<not> 0 < bitlen m"
    then have "nat (bitlen m) = 0" by simp
    with b(2) m show False by simp
  qed
  have my: "of_int m < y" by (simp add: m_def) linarith
  have "y \<le> of_int (m + 1)" by (simp add: m_def)
  moreover have "(of_int (m + 1) :: rat) \<le> of_int (2 ^ nat (bitlen m))"
    using b(2) by (simp only: of_int_le_iff)
  ultimately have "y \<le> 2 ^ nat (bitlen m)" by simp
  then have "1 / 2 ^ nat (bitlen m) \<le> x"
    using assms by (simp add: y_def field_simps)
  then have lo: "pow2 (- bitlen m) \<le> x"
    using pos by (simp add: pow2_def)
  have "(2::rat) ^ nat (bitlen m - 1) = of_int (2 ^ nat (bitlen m - 1))" by simp
  also have "\<dots> \<le> of_int m"
    using b(1) by (simp only: of_int_le_iff)
  finally have "(2::rat) ^ nat (bitlen m - 1) \<le> of_int m" .
  then have "2 ^ nat (bitlen m - 1) < y" using my by (rule le_less_trans)
  then have "x < 1 / 2 ^ nat (bitlen m - 1)"
    using assms by (simp add: y_def field_simps)
  moreover have "pow2 (- bitlen m + 1) = 1 / 2 ^ nat (bitlen m - 1)"
    using pos by (auto simp: pow2_def)
  ultimately have hi: "x < pow2 (- bitlen m + 1)" by simp
  show ?thesis using False lo hi by (simp add: floor_log2_def m_def y_def)
qed

lemma floor_log2_unique:
  assumes "0 < x" and "pow2 k \<le> x" and "x < pow2 (k + 1)"
  shows "floor_log2 x = k"
proof -
  from floor_log2_bounds [OF assms(1)]
  have "pow2 (floor_log2 x) < pow2 (k + 1)" and "pow2 k < pow2 (floor_log2 x + 1)"
    using assms(2,3) by auto
  then show ?thesis by (simp add: pow2_less_iff)
qed

lemma fl64_eval:
  assumes "x \<noteq> 0" and "pow2 k \<le> \<bar>x\<bar>" and "\<bar>x\<bar> < pow2 (k + 1)"
  shows "fl64 x = of_int (round_half_even (x / pow2 (max (k - 52) (- 1074))))
                    * pow2 (max (k - 52) (- 1074))"
proof -
  have "floor_log2 \<bar>x\<bar> = k"
    using assms by (intro floor_log2_unique) simp_all
  then show ?thesis using assms(1) by (simp add: fl64_def Let_def)
qed

lemma fl64_eq:
  assumes "x \<noteq> 0" and "pow2 k \<le> \<bar>x\<bar>" and "\<bar>x\<bar> < pow2 (k + 1)"
    and "of_int (round_half_even (x / pow2 (max (k - 52) (- 1074))))
           * pow2 (max (k - 52) (- 1074)) = y"
  shows "fl64 x = y"
  using fl64_eval [OF assms(1-3)] assms(4) by simp

lemmas fl_eval = pow2_def round_half_even_def floor_rat_numeral floor_rat_neg_numeral Let_def

lemma ratio_percent_eq:
  assumes "fl64 (of_int p / of_int t) = q" and "\<not> overflows (q * 100)" and "fl64 (q * 100) = y"
  shows "ratio_percent p t = Fin y"
  using assms by (simp add: ratio_percent_def fin_or_inf_def)

lemma fsub_Fin:
  assumes "\<not> overflows (x - y)" and "fl64 (x - y) = z"
  shows "fsub (Fin x) (Fin y) = Fin z"
  using assms by (simp add: fin_or_inf_def)

lemma round1_Fin:
  assumes "round_half_even (x * 10) = n" and "d = of_int n / 10"
  shows "round1 (Fin x) = float_of_decimal d"
  unfolding assms(2) float_of_decimal_def using assms(1) by simp

lemma ratio_10_15: "ratio_percent 10 15 = Fin (2345624805922133 / 35184372088832)"
proof (rule ratio_percent_eq)
  show "fl64 (of_int 10 / of_int 15) = 6004799503160661 / 9007199254740992"
    by (rule fl64_eq [where k = "- 1"]) (simp_all add: fl_eval)
  show "\<not> overflows (6004799503160661 / 9007199254740992 * 100)"
    by (simp add: overflows_def)
  show "fl64 (6004799503160661 / 9007199254740992 * 100) = 2345624805922133 / 35184372088832"
    by (rule fl64_eq [where k = 6]) (simp_all add: fl_eval)
qed

lemma percent_10_15: "round1 (ratio_percent 10 15) = float_of_decimal (667 / 10)"
  unfolding ratio_10_15 by (rule round1_Fin [where n = 667]) (simp_all add: fl_eval)


lemma float_667: "float_of_decimal (667 / 10) = Fin (4693595236650189 / 70368744177664)"
  unfolding float_of_decimal_def pyfloat.inject
  by (rule fl64_eq [where k = 6]) (simp_all add: fl_eval)

lemma ratio_5_10: "ratio_percent 5 10 = Fin 50"
proof (rule ratio_percent_eq)
  show "fl64 (of_int 5 / of_int 10) = 1 / 2"
    by (rule fl64_eq [where k = "- 1"]) (simp_all add: fl_eval)
  show "\<not> overflows (1 / 2 * 100)"
    by (simp add: overflows_def)
  show "fl64 (1 / 2 * 100) = 50"
    by (rule fl64_eq [where k = 5]) (simp_all add: fl_eval)
qed

lemma delta_667_50:
  "round1 (fsub (float_of_decimal (667 / 10)) (Fin 50)) = float_of_decimal (167 / 10)"
proof -
  have "fsub (float_of_decimal (667 / 10)) (Fin 50) = Fin (1175158027766989 / 70368744177664)"
    unfolding float_667
  proof (rule fsub_Fin)
    show "\<not> overflows (4693595236650189 / 70368744177664 - 50)"
      by (simp add: overflows_def)
    show "fl64 (4693595236650189 / 70368744177664 - 50) = 1175158027766989 / 70368744177664"
      by (rule fl64_eq [where k = 4]) (simp_all add: fl_eval)
  qed
  then show ?thesis
    by (simp only:) (rule round1_Fin [where n = 167], simp_all add: fl_eval)
qed

lemma ratio_1_8: "ratio_percent 1 8 = Fin (25 / 2)"
proof (rule ratio_percent_eq)
  show "fl64 (of_int 1 / of_int 8) = 1 / 8"
    by (rule fl64_eq [where k = "- 3"]) (simp_all add: fl_eval)
  show "\<not> overflows (1 / 8 * 100)"
    by (simp add: overflows_def)
  show "fl64 (1 / 8 * 100) = 25 / 2"
    by (rule fl64_eq [where k = 3]) (simp_all add: fl_eval)
qed

lemma float_12_5: "float_of_decimal (25 / 2) = Fin (25 / 2)"
  unfolding float_of_decimal_def pyfloat.inject
  by (rule fl64_eq [where k = 3]) (simp_all add: fl_eval)

lemma percent_1_8: "round1 (ratio_percent 1 8) = Fin (25 / 2)"
proof -
  have "round1 (Fin (25 / 2)) = float_of_decimal (25 / 2)"
    by (rule round1_Fin [where n = 125]) (simp_all add: fl_eval)
  then show ?thesis by (simp only: ratio_1_8 float_12_5)
qed

lemma ratio_1_16: "ratio_percent 1 16 = Fin (25 / 4)"
proof (rule ratio_percent_eq)
  show "fl64 (of_int 1 / of_int 16) = 1 / 16"
    by (rule fl64_eq [where k = "- 4"]) (simp_all add: fl_eval)
  show "\<not> overflows (1 / 16 * 100)"
    by (simp add: overflows_def)
  show "fl64 (1 / 16 * 100) = 25 / 4"
    by (rule fl64_eq [where k = 2]) (simp_all add: fl_eval)
qed

lemma float_6_2: "float_of_decimal (31 / 5) = Fin (6980579422424269 / 1125899906842624)"
  unfolding float_of_decimal_def pyfloat.inject
  by (rule fl64_eq [where k = 2]) (simp_all add: fl_eval)

lemma float_6_3: "float_of_decimal (63 / 10) = Fin (7093169413108531 / 1125899906842624)"
  unfolding float_of_decimal_def pyfloat.inject
  by (rule fl64_eq [where k = 2]) (simp_all add: fl_eval)

lemma delta_tie: "round1 (fsub (Fin (25 / 2)) (ratio_percent 1 16)) = float_of_decimal (31 / 5)"
proof -
  have "fsub (Fin (25 / 2)) (ratio_percent 1 16) = Fin (25 / 4)"
    unfolding ratio_1_16
  proof (rule fsub_Fin)
    show "\<not> overflows (25 / 2 - 25 / 4)"
      by (simp add: overflows_def)
    show "fl64 (25 / 2 - 25 / 4) = 25 / 4"
      by (rule fl64_eq [where k = 2]) (simp_all add: fl_eval)
  qed
  then show ?thesis
    by (simp only:) (rule round1_Fin [where n = 62], simp_all add: fl_eval)
qed

lemma claimed_delta_tie: "claimed_delta (Fin (25 / 2)) 1 16 = float_of_decimal (63 / 10)"
proof -
  have "round1 (Fin (25 / 4)) = float_of_decimal (31 / 5)"
    by (rule round1_Fin [where n = 62]) (simp_all add: fl_eval)
  then have r: "round1 (ratio_percent 1 16) = Fin (6980579422424269 / 1125899906842624)"
    by (simp only: ratio_1_16 float_6_2)
  have "fsub (Fin (25 / 2)) (Fin (6980579422424269 / 1125899906842624)) =
        Fin (7093169413108531 / 1125899906842624)"
  proof (rule fsub_Fin)
    show "\<not> overflows (25 / 2 - 6980579422424269 / 1125899906842624)"
      by (simp add: overflows_def)
    show "fl64 (25 / 2 - 6980579422424269 / 1125899906842624) =
          7093169413108531 / 1125899906842624"
      by (rule fl64_eq [where k = 2]) (simp_all add: fl_eval)
  qed
  then show ?thesis
    unfolding claimed_delta_def r
    by (simp only:) (rule round1_Fin [where n = 63], simp_all add: fl_eval)
qed

lemma tie_differs: "float_of_decimal (31 / 5) \<noteq> float_of_decimal (63 / 10)"
  unfolding float_6_2 float_6_3 by simp

subsection \<open>The report: minutes and percentage\<close>

lemma std_env_clock:
  "today_str std_env = ''2024-05-02''" "yesterday_str std_env = ''2024-05-01''"
  by (simp_all add: today_str_def yesterday_str_def std_env_def)

lemma valid_record_eq:
  "valid_record \<lparr> productive = p, unproductive = u, sites = s \<rparr> \<longleftrightarrow>
     0 \<le> p \<and> 0 \<le> u \<and> list_all (\<lambda>(h, s). 0 \<le> s) s \<and> distinct (map fst s)"
  by (simp add: valid_record_def)

lemma valid_store_two_days:
  assumes "valid_record r1" and "valid_record r2"
  shows "valid_store [d1 \<mapsto> [u1 \<mapsto> r1], d2 \<mapsto> [u2 \<mapsto> r2]]"
  using assms by (auto simp: valid_store_def lookup_record_def split: if_splits)

lemma valid_store_one_day:
  assumes "valid_record r1"
  shows "valid_store [d1 \<mapsto> [u1 \<mapsto> r1]]"
  using assms by (auto simp: valid_store_def lookup_record_def split: if_splits)

lemma percent_file_load:
  "load_data percent_file = Inr (Object
     [''2024-05-02'' \<mapsto> [''guest'' \<mapsto>
        \<lparr> productive = 600, unproductive = 300,
          sites = [(''github.com'', 600), (''youtube.com'', 300)] \<rparr>],
      ''2024-05-01'' \<mapsto> [''guest'' \<mapsto>
        \<lparr> productive = 300, unproductive = 300,
          sites = [(''github.com'', 300), (''youtube.com'', 300)] \<rparr>]])"
  by (simp add: percent_file_def load_data_def)

lemma percent_file_valid:
  "valid_store
     [''2024-05-02'' \<mapsto> [''guest'' \<mapsto>
        \<lparr> productive = 600, unproductive = 300,
          sites = [(''github.com'', 600), (''youtube.com'', 300)] \<rparr>],
      ''2024-05-01'' \<mapsto> [''guest'' \<mapsto>
        \<lparr> productive = 300, unproductive = 300,
          sites = [(''github.com'', 300), (''youtube.com'', 300)] \<rparr>]]"
  by (rule valid_store_two_days) (simp_all add: valid_record_eq)

lemma percent_file_today:
  "record_or_new
     [''2024-05-02'' \<mapsto> [''guest'' \<mapsto>
        \<lparr> productive = 600, unproductive = 300,
          sites = [(''github.com'', 600), (''youtube.com'', 300)] \<rparr>],
      ''2024-05-01'' \<mapsto> [''guest'' \<mapsto>
        \<lparr> productive = 300, unproductive = 300,
          sites = [(''github.com'', 300), (''youtube.com'', 300)] \<rparr>]]
     ''2024-05-02'' ''guest'' =
   \<lparr> productive = 600, unproductive = 300,
     sites = [(''github.com'', 600), (''youtube.com'', 300)] \<rparr>"
  by (simp add: record_or_new_def lookup_record_def)

lemma percent_file_yesterday:
  "lookup_record
     [''2024-05-02'' \<mapsto> [''guest'' \<mapsto>
        \<lparr> productive = 600, unproductive = 300,
          sites = [(''github.com'', 600), (''youtube.com'', 300)] \<rparr>],
      ''2024-05-01'' \<mapsto> [''guest'' \<mapsto>
        \<lparr> productive = 300, unproductive = 300,
          sites = [(''github.com'', 300), (''youtube.com'', 300)] \<rparr>]]
     ''2024-05-01'' ''guest'' =
   Some \<lparr> productive = 300, unproductive = 300,
     sites = [(''github.com'', 300), (''youtube.com'', 300)] \<rparr>"
  by (simp add: lookup_record_def)

text \<open>
  C6. On a readable file whose store fits the data model, the report has
  \<open>productive_minutes = productive div 60\<close> and \<open>unproductive_minutes = unproductive div 60\<close>
  of today's record (the record of zeros when there is none), and with \<open>total\<close> their sum,
  \<open>productivity_percent\<close> is \<^verbatim>\<open>round(productive_minutes / total * 100, 1)\<close> when
  \<open>total > 0\<close> and \<^verbatim>\<open>0.0\<close> when \<open>total = 0\<close>. With 600 productive and 300 unproductive
  seconds the percentage is the float \<^verbatim>\<open>66.7\<close>.
\<close>

theorem report_minutes_and_percent:
  assumes "load_data f = Inr (Object data)" and "valid_store data"
  shows "let r = record_or_new data (today_str e) user;
             rep = fst (get_today_analysis e f user);
             pm = productive r div 60;
             um = unproductive r div 60
         in productive_minutes rep = pm \<and> unproductive_minutes rep = um \<and>
            (pm + um > 0 \<longrightarrow> productivity_percent rep = round1 (ratio_percent pm (pm + um))) \<and>
            (pm + um = 0 \<longrightarrow> productivity_percent rep = Fin 0) \<and>
            (productive r = 600 \<and> unproductive r = 300 \<longrightarrow>
               productivity_percent rep = float_of_decimal (667 / 10))"
  using percent_10_15
  by (simp add: get_today_analysis_valid [OF assms] Let_def)

theorem report_minutes_and_percent_witness:
  "(\<exists>data. load_data percent_file = Inr (Object data) \<and> valid_store data \<and>
      productive (record_or_new data (today_str std_env) ''guest'') = 600 \<and>
      unproductive (record_or_new data (today_str std_env) ''guest'') = 300) \<and>
   productive_minutes (fst (get_today_analysis std_env percent_file ''guest'')) = 10 \<and>
   unproductive_minutes (fst (get_today_analysis std_env percent_file ''guest'')) = 5 \<and>
   productivity_percent (fst (get_today_analysis std_env percent_file ''guest'')) =
     float_of_decimal (667 / 10)"
  using report_minutes_and_percent [OF percent_file_load percent_file_valid, of std_env "''guest''"]
    percent_file_load percent_file_valid
  by (simp add: Let_def std_env_clock percent_file_today percent_10_15)


subsection \<open>The report: comparison with yesterday\<close>

text \<open>
  C5, as the code has it. On a readable file whose store fits the data model: when
  yesterday's record of the user is absent, or present with zero total minutes, the delta
  is absent; when it is present with positive total minutes, the delta is
  \<^verbatim>\<open>round(today_percent - yesterday_percent, 1)\<close>, where \<open>today_percent\<close> is the rounded
  percentage of the report and \<open>yesterday_percent\<close> is
  \<^verbatim>\<open>yesterday_productive_minutes / yesterday_total_minutes * 100\<close> from the floor-divided
  minutes, not rounded. A yesterday at \<^verbatim>\<open>50.0\<close> and a today at \<^verbatim>\<open>66.7\<close> give \<^verbatim>\<open>16.7\<close>.
\<close>

theorem report_delta:
  assumes "load_data f = Inr (Object data)" and "valid_store data"
  shows "let rep = fst (get_today_analysis e f user);
             yesterday_record = lookup_record data (yesterday_str e) user
         in (yesterday_record = None \<longrightarrow> delta_vs_yesterday_percent rep = None) \<and>
            (\<forall>y. yesterday_record = Some y \<longrightarrow>
               (let yp = productive y div 60; yt = yp + unproductive y div 60
                in (yt = 0 \<longrightarrow> delta_vs_yesterday_percent rep = None) \<and>
                   (yt > 0 \<longrightarrow> delta_vs_yesterday_percent rep =
                      Some (round1 (fsub (productivity_percent rep) (ratio_percent yp yt)))) \<and>
                   (yt > 0 \<and> ratio_percent yp yt = Fin 50 \<and>
                    productivity_percent rep = float_of_decimal (667 / 10) \<longrightarrow>
                      delta_vs_yesterday_percent rep = Some (float_of_decimal (167 / 10)))))"
  using delta_667_50
  by (simp add: get_today_analysis_valid [OF assms] Let_def delta_of_def)

theorem report_delta_witness:
  "(\<exists>data y. load_data percent_file = Inr (Object data) \<and> valid_store data \<and>
      lookup_record data (yesterday_str std_env) ''guest'' = Some y \<and>
      productive y div 60 + unproductive y div 60 > 0 \<and>
      ratio_percent (productive y div 60) (productive y div 60 + unproductive y div 60) = Fin 50) \<and>
   productivity_percent (fst (get_today_analysis std_env percent_file ''guest'')) =
     float_of_decimal (667 / 10) \<and>
   delta_vs_yesterday_percent (fst (get_today_analysis std_env percent_file ''guest'')) =
     Some (float_of_decimal (167 / 10))"
proof -
  let ?rep = "fst (get_today_analysis std_env percent_file ''guest'')"
  have pct: "productivity_percent ?rep = float_of_decimal (667 / 10)"
    by (simp add: get_today_analysis_valid [OF percent_file_load percent_file_valid] Let_def
        std_env_clock percent_file_today percent_10_15)
  have "delta_vs_yesterday_percent ?rep = Some (float_of_decimal (167 / 10))"
    using report_delta [OF percent_file_load percent_file_valid, of std_env "''guest''"]
    by (simp add: Let_def std_env_clock percent_file_yesterday ratio_5_10 pct delta_667_50)
  then show ?thesis
    using percent_file_load percent_file_valid pct
    by (simp add: std_env_clock percent_file_yesterday ratio_5_10)
qed

lemma tie_file_load:
  "load_data tie_file = Inr (Object
     [''2024-05-02'' \<mapsto> [''guest'' \<mapsto>
        \<lparr> productive = 60, unproductive = 420,
          sites = [(''github.com'', 60), (''youtube.com'', 420)] \<rparr>],
      ''2024-05-01'' \<mapsto> [''guest'' \<mapsto>
        \<lparr> productive = 60, unproductive = 900,
          sites = [(''github.com'', 60), (''youtube.com'', 900)] \<rparr>]])"
  by (simp add: tie_file_def load_data_def)

lemma tie_file_valid:
  "valid_store
     [''2024-05-02'' \<mapsto> [''guest'' \<mapsto>
        \<lparr> productive = 60, unproductive = 420,
          sites = [(''github.com'', 60), (''youtube.com'', 420)] \<rparr>],
      ''2024-05-01'' \<mapsto> [''guest'' \<mapsto>
        \<lparr> productive = 60, unproductive = 900,
          sites = [(''github.com'', 60), (''youtube.com'', 900)] \<rparr>]]"
  by (rule valid_store_two_days) (simp_all add: valid_record_eq)

lemma tie_file_report:
  "productivity_percent (fst (get_today_analysis std_env tie_file ''guest'')) = Fin (25 / 2)"
  "delta_vs_yesterday_percent (fst (get_today_analysis std_env tie_file ''guest'')) =
     Some (float_of_decimal (31 / 5))"
  by (simp_all add: get_today_analysis_valid [OF tie_file_load tie_file_valid] Let_def
      std_env_clock record_or_new_def lookup_record_def delta_of_def percent_1_8 delta_tie)

text \<open>
  The claim C5 words yesterday's percentage as rounded to one decimal like today's. With
  1 productive minute out of 8 today (\<^verbatim>\<open>12.5\<close>) and 1 out of 16 yesterday (\<^verbatim>\<open>6.25\<close>),
  the report's delta is \<^verbatim>\<open>round(12.5 - 6.25, 1) = 6.2\<close>, and the worded one is
  \<^verbatim>\<open>round(12.5 - round(6.25, 1), 1) = 6.3\<close>.
\<close>

theorem report_delta_counterexample:
  "delta_vs_yesterday_percent (fst (get_today_analysis std_env tie_file ''guest'')) =
     Some (float_of_decimal (31 / 5)) \<and>
   claimed_delta (productivity_percent (fst (get_today_analysis std_env tie_file ''guest''))) 1 16 =
     float_of_decimal (63 / 10) \<and>
   delta_vs_yesterday_percent (fst (get_today_analysis std_env tie_file ''guest'')) \<noteq>
     Some (claimed_delta
       (productivity_percent (fst (get_today_analysis std_env tie_file ''guest''))) 1 16)"
  using tie_differs by (simp add: tie_file_report claimed_delta_tie)

subsection \<open>The report: site breakdown\<close>

lemma site_loop_eq:
  "site_loop ss =
     map (\<lambda>(h, s). \<lparr> host = h, minutes = s div 60 \<rparr>) (filter (\<lambda>(h, s). s div 60 > 0) ss)"
  by (induction ss rule: site_loop.induct) auto

lemma sorted_sort_minutes_desc:
  "sorted_wrt (\<lambda>a b. minutes b \<le> minutes a) (sort_minutes_desc xs)"
proof -
  have "sorted (map (\<lambda>x. - minutes x) (sort_minutes_desc xs))"
    unfolding sort_minutes_desc_def by (rule sorted_sort_key)
  then show ?thesis by (simp add: sorted_map)
qed

lemma mset_sort_minutes_desc: "mset (sort_minutes_desc xs) = mset xs"
  by (simp add: sort_minutes_desc_def)

lemma sort_minutes_desc_stable:
  "filter (\<lambda>x. minutes x = m) (sort_minutes_desc xs) = filter (\<lambda>x. minutes x = m) xs"
proof -
  have "filter (\<lambda>x. - minutes x = - m) (sort_key (\<lambda>x. - minutes x) xs) =
        filter (\<lambda>x. - minutes x = - m) xs"
    by (rule sort_key_stable)
  then show ?thesis by (simp add: sort_minutes_desc_def)
qed

lemma abc_ranking:
  "take 10 (sort_minutes_desc (site_loop [(''a.com'', 125), (''b.com'', 59), (''c.com'', 61)])) =
     [\<lparr> host = ''a.com'', minutes = 2 \<rparr>, \<lparr> host = ''c.com'', minutes = 1 \<rparr>]"
  by (simp add: sort_minutes_desc_def)

lemma by_site_of_report:
  assumes "load_data f = Inr (Object data)"
    and "error (fst (get_today_analysis e f user)) = None"
  shows "by_site (fst (get_today_analysis e f user)) =
     take 10 (sort_minutes_desc (site_loop (sites (record_or_new data (today_str e) user))))"
  using assms
  by (auto simp: get_today_analysis_def get_user_day_data_eq failed_report_def Let_def
      split: sum.splits)

text \<open>
  C7, as the code has it. On a readable file, when the report is computed without an
  error indicator, which is so whenever the store has no negative \<open>productive\<close> or
  \<open>unproductive\<close> seconds (the per-site seconds may be negative), the site breakdown
  of the report is the first 10 entries of a ranking that holds exactly the hosts of
  today's \<open>sites\<close> whose minutes \<open>seconds div 60\<close> are positive, each with those minutes,
  in descending order of minutes. The sites \<open>a.com: 125\<close>, \<open>b.com: 59\<close>, \<open>c.com: 61\<close> give
  \<open>a.com: 2\<close>, \<open>c.com: 1\<close>.
\<close>

theorem report_site_breakdown:
  assumes "load_data f = Inr (Object data)"
    and "totals_nonneg data \<or> error (fst (get_today_analysis e f user)) = None"
  shows "\<exists>ranking.
      by_site (fst (get_today_analysis e f user)) = take 10 ranking \<and>
      mset ranking =
        mset (map (\<lambda>(h, s). \<lparr> host = h, minutes = s div 60 \<rparr>)
               (filter (\<lambda>(h, s). s div 60 > 0)
                  (sites (record_or_new data (today_str e) user)))) \<and>
      sorted_wrt (\<lambda>a b. minutes b \<le> minutes a) ranking \<and>
      length (by_site (fst (get_today_analysis e f user))) \<le> 10 \<and>
      (sites (record_or_new data (today_str e) user) =
         [(''a.com'', 125), (''b.com'', 59), (''c.com'', 61)] \<longrightarrow>
       by_site (fst (get_today_analysis e f user)) =
         [\<lparr> host = ''a.com'', minutes = 2 \<rparr>, \<lparr> host = ''c.com'', minutes = 1 \<rparr>])"
proof -
  define r where "r = record_or_new data (today_str e) user"
  define ranking where "ranking = sort_minutes_desc (site_loop (sites r))"
  have by_site: "by_site (fst (get_today_analysis e f user)) = take 10 ranking"
    using assms(2)
  proof
    assume t: "totals_nonneg data"
    show ?thesis
      by (simp add: get_today_analysis_totals [OF assms(1) t] Let_def ranking_def r_def)
  next
    assume "error (fst (get_today_analysis e f user)) = None"
    with assms(1) show ?thesis
      unfolding ranking_def r_def by (rule by_site_of_report)
  qed
  have "mset ranking =
        mset (map (\<lambda>(h, s). \<lparr> host = h, minutes = s div 60 \<rparr>)
               (filter (\<lambda>(h, s). s div 60 > 0) (sites r)))"
    by (simp add: ranking_def mset_sort_minutes_desc site_loop_eq)
  moreover have "sorted_wrt (\<lambda>a b. minutes b \<le> minutes a) ranking"
    unfolding ranking_def by (rule sorted_sort_minutes_desc)
  moreover have "length (take 10 ranking) \<le> 10" by simp
  moreover have "sites r = [(''a.com'', 125), (''b.com'', 59), (''c.com'', 61)] \<longrightarrow>
       take 10 ranking = [\<lparr> host = ''a.com'', minutes = 2 \<rparr>, \<lparr> host = ''c.com'', minutes = 1 \<rparr>]"
    using abc_ranking by (auto simp: ranking_def)
  ultimately show ?thesis
    unfolding by_site r_def [symmetric] by blast
qed

lemma sites_file_load:
  "load_data sites_file = Inr (Object
     [''2024-05-02'' \<mapsto> [''guest'' \<mapsto>
        \<lparr> productive = 0, unproductive = 0,
          sites = [(''a.com'', 125), (''b.com'', 59), (''c.com'', 61)] \<rparr>]])"
  by (simp add: sites_file_def load_data_def)

lemma totals_nonneg_one_day:
  assumes "0 \<le> productive r1" and "0 \<le> unproductive r1"
  shows "totals_nonneg [d1 \<mapsto> [u1 \<mapsto> r1]]"
  using assms by (auto simp: totals_nonneg_def lookup_record_def split: if_splits)

lemma sites_file_totals:
  "totals_nonneg
     [''2024-05-02'' \<mapsto> [''guest'' \<mapsto>
        \<lparr> productive = 0, unproductive = 0,
          sites = [(''a.com'', 125), (''b.com'', 59), (''c.com'', 61)] \<rparr>]]"
  by (rule totals_nonneg_one_day) simp_all

theorem report_site_breakdown_witness:
  "(\<exists>data. load_data sites_file = Inr (Object data) \<and> totals_nonneg data \<and>
      sites (record_or_new data (today_str std_env) ''guest'') =
        [(''a.com'', 125), (''b.com'', 59), (''c.com'', 61)]) \<and>
   by_site (fst (get_today_analysis std_env sites_file ''guest'')) =
     [\<lparr> host = ''a.com'', minutes = 2 \<rparr>, \<lparr> host = ''c.com'', minutes = 1 \<rparr>]"
proof -
  have s: "sites (record_or_new
      [''2024-05-02'' \<mapsto> [''guest'' \<mapsto>
        \<lparr> productive = 0, unproductive = 0,
          sites = [(''a.com'', 125), (''b.com'', 59), (''c.com'', 61)] \<rparr>]]
      (today_str std_env) ''guest'') = [(''a.com'', 125), (''b.com'', 59), (''c.com'', 61)]"
    by (simp add: record_or_new_def lookup_record_def std_env_clock)
  from report_site_breakdown [OF sites_file_load disjI1 [OF sites_file_totals],
      of std_env "''guest''"]
  have "by_site (fst (get_today_analysis std_env sites_file ''guest'')) =
     [\<lparr> host = ''a.com'', minutes = 2 \<rparr>, \<lparr> host = ''c.com'', minutes = 1 \<rparr>]"
    using s by blast
  then show ?thesis
    using sites_file_load sites_file_totals s by blast
qed

lemma run_negative_events: "run_events Missing negative_events = negative_file"
proof -
  have h1: "get_host std_env ''https://a.com/page'' = ''a.com''"
    by (simp add: std_env_host_defs)
  have h2: "get_host std_env ''https://c.com/page'' = ''c.com''"
    by (simp add: std_env_host_defs)
  have c1: "classify_host ''a.com'' = None"
    by (simp add: classify_host_def PRODUCTIVE_SITES_def UNPRODUCTIVE_SITES_def)
  have c2: "classify_host ''c.com'' = None"
    by (simp add: classify_host_def PRODUCTIVE_SITES_def UNPRODUCTIVE_SITES_def)
  have t: "today_str std_env = ''2024-05-02''" and w: "write_result std_env = Written"
    by (simp_all add: today_str_def std_env_def)
  show ?thesis
    by (simp add: negative_events_def negative_file_def log_activity_def load_data_def
        get_user_day_data_def put_user_day_data_def add_site_def add_duration_def dict_has_def
        dict_get_def save_data_def is_productive_site_def new_day_user_def h1 h2 c1 c2 t w
        Let_def)
qed

lemma negative_file_load:
  "load_data negative_file = Inr (Object
     [''2024-05-02'' \<mapsto> [''guest'' \<mapsto>
        \<lparr> productive = 0, unproductive = 0,
          sites = [(''a.com'', - 120), (''c.com'', 61)] \<rparr>]])"
  by (simp add: negative_file_def load_data_def)

lemma negative_file_totals:
  "totals_nonneg
     [''2024-05-02'' \<mapsto> [''guest'' \<mapsto>
        \<lparr> productive = 0, unproductive = 0,
          sites = [(''a.com'', - 120), (''c.com'', 61)] \<rparr>]]"
  by (rule totals_nonneg_one_day) simp_all

lemma negative_file_by_site:
  "by_site (fst (get_today_analysis std_env negative_file ''guest'')) =
     [\<lparr> host = ''c.com'', minutes = 1 \<rparr>]"
  by (simp add: get_today_analysis_totals [OF negative_file_load negative_file_totals] Let_def
      std_env_clock record_or_new_def lookup_record_def sort_minutes_desc_def)

text \<open>
  The claim C7 keeps every host whose minutes are not zero. The handler does not check the
  sign of a duration: an event of -120 seconds for \<open>a.com\<close> and one of 61 seconds for
  \<open>c.com\<close>, sent to a missing file, leave \<open>a.com: -120\<close> and \<open>c.com: 61\<close> in today's
  \<open>sites\<close>. The minutes of \<open>a.com\<close> are \<open>-120 div 60 = -2\<close>, not zero, and the report
  lists \<open>c.com\<close> only.
\<close>

theorem report_site_breakdown_counterexample:
  "run_events Missing negative_events = negative_file \<and>
   negative_file = Stored
     [''2024-05-02'' \<mapsto> [''guest'' \<mapsto>
        \<lparr> productive = 0, unproductive = 0,
          sites = [(''a.com'', - 120), (''c.com'', 61)] \<rparr>]] \<and>
   (- 120 :: int) div 60 = - 2 \<and> (- 2 :: int) \<noteq> 0 \<and>
   by_site (fst (get_today_analysis std_env negative_file ''guest'')) =
     [\<lparr> host = ''c.com'', minutes = 1 \<rparr>] \<and>
   \<lparr> host = ''a.com'', minutes = - 2 \<rparr> \<notin>
     set (by_site (fst (get_today_analysis std_env negative_file ''guest'')))"
proof -
  have f2: "negative_file = Stored
     [''2024-05-02'' \<mapsto> [''guest'' \<mapsto>
        \<lparr> productive = 0, unproductive = 0,
          sites = [(''a.com'', - 120), (''c.com'', 61)] \<rparr>]]"
    by (simp add: negative_file_def)
  have f3: "(- 120 :: int) div 60 = - 2" and f4: "(- 2 :: int) \<noteq> 0"
    by simp_all
  have f6: "\<lparr> host = ''a.com'', minutes = - 2 \<rparr> \<notin>
     set (by_site (fst (get_today_analysis std_env negative_file ''guest'')))"
    by (simp add: negative_file_by_site)
  show ?thesis
    by (intro conjI run_negative_events f2 f3 f4 negative_file_by_site f6)
qed

subsection \<open>Missing and malformed files\<close>

lemma valid_store_empty: "valid_store Map.empty"
  by (simp add: valid_store_def lookup_record_def)

lemma random_choice_member: "xs \<noteq> [] \<Longrightarrow> random_choice e xs \<in> set xs"
  by (simp add: random_choice_def)

lemma quotes_nonempty: "MOTIVATIONAL_QUOTES \<noteq> []"
  by (simp add: MOTIVATIONAL_QUOTES_def)

lemma failed_load_report:
  assumes "f = Undecodable \<or> f = Unreadable \<or> f = Not_object"
  shows "fst (get_today_analysis e f user) =
     failed_report (if f = Undecodable then UnicodeDecodeError
                    else if f = Unreadable then OSError else TypeError)"
  using assms
  by (auto simp: get_today_analysis_def load_data_def get_user_day_data_def Let_def)

lemma fallback_quote_not_in_pool:
  "''Every journey begins with a single step.'' \<notin> set MOTIVATIONAL_QUOTES"
  by (simp add: MOTIVATIONAL_QUOTES_def)

text \<open>
  C8, as the code has it. A missing file, and a file of text that \<^verbatim>\<open>json.load\<close> rejects
  with \<^verbatim>\<open>JSONDecodeError\<close>, load as the empty store without an exception. A file that
  is not UTF-8 makes \<^verbatim>\<open>load_data\<close> raise \<^verbatim>\<open>UnicodeDecodeError\<close>, a file that cannot
  be opened makes it raise \<^verbatim>\<open>OSError\<close>, and a file of valid JSON that is not an object
  loads as that value, not as the empty store; on these three the report is the fallback
  report: zeros, no delta, the fallback quote, which is not of the pool, an empty site
  list, and an error indicator. On every file that loads as the empty store, for every
  user, the report has 0 productive and 0 unproductive minutes, percentage \<^verbatim>\<open>0.0\<close>, no
  delta, a quote of the pool, an empty site list, and no error indicator.
\<close>

theorem empty_store_report:
  "load_data Missing = Inr (Object Map.empty) \<and>
   load_data Malformed = Inr (Object Map.empty) \<and>
   load_data Undecodable = Inl UnicodeDecodeError \<and>
   load_data Unreadable = Inl OSError \<and>
   load_data Not_object = Inr Non_object \<and>
   (f = Undecodable \<or> f = Unreadable \<or> f = Not_object \<longrightarrow>
      (let rep = fst (get_today_analysis e f user)
       in productive_minutes rep = 0 \<and> unproductive_minutes rep = 0 \<and>
          productivity_percent rep = Fin 0 \<and> delta_vs_yesterday_percent rep = None \<and>
          quote rep = ''Every journey begins with a single step.'' \<and>
          quote rep \<notin> set MOTIVATIONAL_QUOTES \<and> by_site rep = [] \<and> error rep \<noteq> None)) \<and>
   (load_data f = Inr (Object Map.empty) \<longrightarrow>
      (let rep = fst (get_today_analysis e f user)
       in productive_minutes rep = 0 \<and> unproductive_minutes rep = 0 \<and>
          productivity_percent rep = Fin 0 \<and> delta_vs_yesterday_percent rep = None \<and>
          quote rep \<in> set MOTIVATIONAL_QUOTES \<and> by_site rep = [] \<and> error rep = None))"
proof -
  have "load_data Missing = Inr (Object Map.empty)"
    and "load_data Malformed = Inr (Object Map.empty)"
    and "load_data Undecodable = Inl UnicodeDecodeError"
    and "load_data Unreadable = Inl OSError"
    and "load_data Not_object = Inr Non_object"
    by (simp_all add: load_data_def)
  moreover have "let rep = fst (get_today_analysis e f user)
       in productive_minutes rep = 0 \<and> unproductive_minutes rep = 0 \<and>
          productivity_percent rep = Fin 0 \<and> delta_vs_yesterday_percent rep = None \<and>
          quote rep = ''Every journey begins with a single step.'' \<and>
          quote rep \<notin> set MOTIVATIONAL_QUOTES \<and> by_site rep = [] \<and> error rep \<noteq> None"
    if "f = Undecodable \<or> f = Unreadable \<or> f = Not_object"
    using fallback_quote_not_in_pool
    by (simp add: failed_load_report [OF that] failed_report_def Let_def)
  moreover have "let rep = fst (get_today_analysis e f user)
       in productive_minutes rep = 0 \<and> unproductive_minutes rep = 0 \<and>
          productivity_percent rep = Fin 0 \<and> delta_vs_yesterday_percent rep = None \<and>
          quote rep \<in> set MOTIVATIONAL_QUOTES \<and> by_site rep = [] \<and> error rep = None"
    if "load_data f = Inr (Object Map.empty)"
    using random_choice_member [OF quotes_nonempty, of e]
    by (simp add: get_today_analysis_valid [OF that valid_store_empty] Let_def
        record_or_new_empty new_day_user_def delta_of_def lookup_record_def
        sort_minutes_desc_def)
  ultimately show ?thesis by blast
qed

theorem empty_store_report_witness:
  "load_data Malformed = Inr (Object Map.empty) \<and>
   fst (get_today_analysis std_env Malformed ''guest'') =
     \<lparr> productive_minutes = 0, unproductive_minutes = 0, productivity_percent = Fin 0,
       delta_vs_yesterday_percent = None,
       quote = ''Small progress is still progress. Keep going!'',
       by_site = [], error = None \<rparr> \<and>
   quote (fst (get_today_analysis std_env Not_object ''guest'')) =
     ''Every journey begins with a single step.'' \<and>
   error (fst (get_today_analysis std_env Not_object ''guest'')) = Some TypeError"
proof -
  have l: "load_data Malformed = Inr (Object Map.empty)"
    by (simp add: load_data_def)
  have q: "quote (fst (get_today_analysis std_env Malformed ''guest'')) =
      ''Small progress is still progress. Keep going!''"
    by (simp add: get_today_analysis_valid [OF l valid_store_empty] Let_def random_choice_def
        std_env_def MOTIVATIONAL_QUOTES_def)
  have e: "error (fst (get_today_analysis std_env Not_object ''guest'')) = Some TypeError"
    by (simp add: failed_load_report failed_report_def)
  have a: "fst (get_today_analysis std_env Malformed ''guest'') =
     \<lparr> productive_minutes = 0, unproductive_minutes = 0, productivity_percent = Fin 0,
       delta_vs_yesterday_percent = None,
       quote = ''Small progress is still progress. Keep going!'',
       by_site = [], error = None \<rparr>"
    using empty_store_report [of Malformed std_env "''guest''"] l q
    by (cases "fst (get_today_analysis std_env Malformed ''guest'')") (simp add: Let_def)
  have b: "quote (fst (get_today_analysis std_env Not_object ''guest'')) =
     ''Every journey begins with a single step.''"
    using empty_store_report [of Not_object std_env "''guest''"] by (simp add: Let_def)
  show ?thesis using l a b e by simp
qed

text \<open>
  The claim C8 has every corrupt file load as the empty store, without a failure. A file
  whose bytes are not UTF-8 is corrupt, and \<^verbatim>\<open>load_data\<close> raises on it: the exception
  is \<^verbatim>\<open>UnicodeDecodeError\<close>, which the \<^verbatim>\<open>except\<close> clause does not name. A file holding
  \<^verbatim>\<open>[]\<close> loads as a list. The report on them is the fallback one.
\<close>

theorem empty_store_report_counterexample:
  "load_data Undecodable = Inl UnicodeDecodeError \<and>
   load_data Undecodable \<noteq> Inr (Object Map.empty) \<and>
   load_data Not_object \<noteq> Inr (Object Map.empty) \<and>
   error (fst (get_today_analysis std_env Undecodable ''guest'')) = Some UnicodeDecodeError \<and>
   quote (fst (get_today_analysis std_env Undecodable ''guest'')) \<notin> set MOTIVATIONAL_QUOTES"
  using fallback_quote_not_in_pool
  by (simp add: load_data_def failed_load_report failed_report_def)

subsection \<open>The analysis does not write\<close>

lemma get_today_analysis_file: "snd (get_today_analysis e f user) = f"
  by (simp add: get_today_analysis_def Let_def split: sum.splits prod.splits)

lemma run_reports_file: "run_reports f requests = f"
  by (induction requests arbitrary: f) (auto simp: get_today_analysis_file)

text \<open>
  C10. Computing the report leaves the file as it was, whatever the file, the clock and
  the user, and so does any sequence of reports; in particular a user without a record
  for today has none afterwards: the record created in memory is not saved.
\<close>

theorem analysis_keeps_file:
  "snd (get_today_analysis e f user) = f \<and> run_reports f requests = f \<and>
   (load_data f = Inr (Object data) \<and> lookup_record data (today_str e) user = None \<longrightarrow>
      (\<exists>data'. load_data (snd (get_today_analysis e f user)) = Inr (Object data') \<and>
         lookup_record data' (today_str e) user = None))"
  by (simp add: get_today_analysis_file run_reports_file)

theorem analysis_keeps_file_witness:
  "load_data percent_file \<noteq> Inl OSError \<and>
   snd (get_today_analysis std_env percent_file ''nobody'') = percent_file \<and>
   run_reports percent_file [(std_env, ''guest''), (std_env, ''nobody'')] = percent_file \<and>
   (\<exists>data. load_data (snd (get_today_analysis std_env percent_file ''nobody'')) =
      Inr (Object data) \<and>
      lookup_record data (today_str std_env) ''nobody'' = None)"
proof -
  have "lookup_record
     [''2024-05-02'' \<mapsto> [''guest'' \<mapsto>
        \<lparr> productive = 600, unproductive = 300,
          sites = [(''github.com'', 600), (''youtube.com'', 300)] \<rparr>],
      ''2024-05-01'' \<mapsto> [''guest'' \<mapsto>
        \<lparr> productive = 300, unproductive = 300,
          sites = [(''github.com'', 300), (''youtube.com'', 300)] \<rparr>]]
     (today_str std_env) ''nobody'' = None"
    by (simp add: lookup_record_def std_env_clock)
  then show ?thesis
    using analysis_keeps_file [of std_env percent_file "''nobody''"
        "[(std_env, ''guest''), (std_env, ''nobody'')]"] percent_file_load
    by simp
qed

subsection \<open>URLs without a host\<close>

lemma get_host_cases:
  "urlparse_netloc e url = Inl err \<Longrightarrow> get_host e url = ''unknown''"
  "urlparse_netloc e url = Inr [] \<Longrightarrow> get_host e url = []"
  by (simp_all add: get_host_def lower_def)

lemma std_env_bad_bracket: "urlparse_netloc std_env ''http://[bad'' = Inl ValueError"
  by (simp add: std_env_parse_defs)

lemma std_env_not_a_url: "urlparse_netloc std_env ''not a url'' = Inr []"
  by (simp add: std_env_parse_defs)

text \<open>
  C4, as the code has it. The host extractor never raises. When \<^verbatim>\<open>urlparse\<close> raises, the
  host is \<open>unknown\<close>; when \<^verbatim>\<open>urlparse\<close> returns an empty network location, the host is the
  empty string. In both cases the URL is neutral, and an event for it (the file readable
  and written) is answered with status ok and recorded: \<open>sites[host]\<close> of today's record
  is increased by the duration, \<open>productive\<close> and \<open>unproductive\<close> are unchanged.
\<close>

theorem hostless_url_recorded_neutral:
  assumes "urlparse_netloc e url = Inl err \<or> urlparse_netloc e url = Inr []"
    and "load_data f = Inr (Object data)" and "write_result e = Written"
  shows "(urlparse_netloc e url = Inl err \<longrightarrow> get_host e url = ''unknown'') \<and>
         (urlparse_netloc e url = Inr [] \<longrightarrow> get_host e url = []) \<and>
         is_productive_site e url = None \<and>
         (\<exists>data' r'.
            log_activity e f url d user = (Status_ok None (get_host e url) d, Stored data') \<and>
            lookup_record data' (today_str e) user = Some r' \<and>
            (let r = record_or_new data (today_str e) user
             in map_of (sites r') (get_host e url) = Some (site_seconds r (get_host e url) + d) \<and>
                productive r' = productive r \<and> unproductive r' = unproductive r))"
proof -
  have c: "classify_host (get_host e url) = None"
    using assms(1) by (auto simp: get_host_cases classify_unknown classify_empty)
  obtain data' r' where
    "log_activity e f url d user =
        (Status_ok (classify_host (get_host e url)) (get_host e url) d, Stored data')"
    and "lookup_record data' (today_str e) user = Some r'"
    and "let h = get_host e url; r = record_or_new data (today_str e) user in
         map_of (sites r') h = Some (site_seconds r h + d) \<and>
         (\<forall>h'. h' \<noteq> h \<longrightarrow> map_of (sites r') h' = map_of (sites r) h') \<and>
         (classify_host h = Some True \<longrightarrow>
            productive r' = productive r + d \<and> unproductive r' = unproductive r) \<and>
         (classify_host h = Some False \<longrightarrow>
            unproductive r' = unproductive r + d \<and> productive r' = productive r) \<and>
         (classify_host h = None \<longrightarrow>
            productive r' = productive r \<and> unproductive r' = unproductive r)"
    using log_activity_effect [OF assms(2,3), of url d user] by blast
  then have "\<exists>data' r'.
            log_activity e f url d user = (Status_ok None (get_host e url) d, Stored data') \<and>
            lookup_record data' (today_str e) user = Some r' \<and>
            (let r = record_or_new data (today_str e) user
             in map_of (sites r') (get_host e url) = Some (site_seconds r (get_host e url) + d) \<and>
                productive r' = productive r \<and> unproductive r' = unproductive r)"
    by (intro exI [of _ data'] exI [of _ r']) (simp add: c Let_def)
  then show ?thesis
    using c by (simp add: get_host_cases is_productive_site_def)
qed

theorem hostless_url_recorded_neutral_witness:
  "urlparse_netloc std_env ''http://[bad'' = Inl ValueError \<and>
   urlparse_netloc std_env ''not a url'' = Inr [] \<and>
   load_data Missing = Inr (Object Map.empty) \<and> write_result std_env = Written \<and>
   get_host std_env ''http://[bad'' = ''unknown'' \<and>
   get_host std_env ''not a url'' = [] \<and>
   (\<exists>data' r'.
      log_activity std_env Missing ''http://[bad'' 45 ''guest'' =
        (Status_ok None ''unknown'' 45, Stored data') \<and>
      lookup_record data' ''2024-05-02'' ''guest'' = Some r' \<and>
      map_of (sites r') ''unknown'' = Some 45 \<and> productive r' = 0 \<and> unproductive r' = 0) \<and>
   (\<exists>data' r'.
      log_activity std_env Missing ''not a url'' 45 ''guest'' =
        (Status_ok None [] 45, Stored data') \<and>
      lookup_record data' ''2024-05-02'' ''guest'' = Some r' \<and>
      map_of (sites r') [] = Some 45 \<and> productive r' = 0 \<and> unproductive r' = 0)"
proof -
  have w: "write_result std_env = Written"
    by (simp add: std_env_def)
  have h1: "get_host std_env ''http://[bad'' = ''unknown''"
    and h2: "get_host std_env ''not a url'' = []"
    by (simp_all add: get_host_cases std_env_bad_bracket std_env_not_a_url)
  have s: "site_seconds new_day_user h = 0" for h
    by (simp add: site_seconds_def new_day_user_def)
  have n: "productive new_day_user = 0" "unproductive new_day_user = 0"
    by (simp_all add: new_day_user_def)
  have a: "\<exists>data' r'.
      log_activity std_env Missing ''http://[bad'' 45 ''guest'' =
        (Status_ok None ''unknown'' 45, Stored data') \<and>
      lookup_record data' ''2024-05-02'' ''guest'' = Some r' \<and>
      map_of (sites r') ''unknown'' = Some 45 \<and> productive r' = 0 \<and> unproductive r' = 0"
    using hostless_url_recorded_neutral [of std_env "''http://[bad''" ValueError Missing
        Map.empty 45 "''guest''"]
    by (simp add: std_env_bad_bracket load_data_Missing w h1 std_env_clock
        record_or_new_empty s n Let_def)
  have b: "\<exists>data' r'.
      log_activity std_env Missing ''not a url'' 45 ''guest'' =
        (Status_ok None [] 45, Stored data') \<and>
      lookup_record data' ''2024-05-02'' ''guest'' = Some r' \<and>
      map_of (sites r') [] = Some 45 \<and> productive r' = 0 \<and> unproductive r' = 0"
    using hostless_url_recorded_neutral [of std_env "''not a url''" ValueError Missing
        Map.empty 45 "''guest''"]
    by (simp add: std_env_not_a_url load_data_Missing w h2 std_env_clock
        record_or_new_empty s n Let_def)
  show ?thesis
    using a b by (simp add: std_env_bad_bracket std_env_not_a_url load_data_Missing w h1 h2)
qed

text \<open>
  The claim C4 has the sentinel \<open>unknown\<close> also for a URL that parses to no host. The
  string \<^verbatim>\<open>not a url\<close> parses without an exception to an empty network location, and
  the host extracted is the empty string.
\<close>

theorem hostless_url_counterexample:
  "urlparse_netloc std_env ''not a url'' = Inr [] \<and>
   get_host std_env ''not a url'' = [] \<and>
   get_host std_env ''not a url'' \<noteq> ''unknown''"
  by (simp add: get_host_cases std_env_not_a_url)


end
